theory Spec2Isabelle
  imports Complex_Main
begin

section \<open>Values, errors and the connection graph of the FBX loader\<close>

text \<open>
  The loader of \<^verbatim>\<open>src/loaders/FBXLoader.ts\<close> works on untyped JavaScript objects.
  A missing property reads as \<^verbatim>\<open>undefined\<close>, and reading a property of
  \<^verbatim>\<open>undefined\<close> raises a TypeError; both are written out here. JavaScript numbers
  are modelled as reals (no statement below depends on rounding), object IDs as
  integers, and an object keyed by node ID as an association list in the order in which
  \<^verbatim>\<open>for (... in ...)\<close> enumerates its keys.
\<close>

datatype error =
    Error string
  | ErrorWith string real
  | TypeError string

text \<open>
  \<open>Error msg\<close> is \<^verbatim>\<open>throw new Error(msg)\<close>, \<open>ErrorWith msg v\<close> the same with the
  number \<open>v\<close> appended to the message, and \<open>TypeError e\<close> the TypeError that the
  JavaScript engine raises itself when the expression \<open>e\<close> is evaluated.
\<close>

datatype jsval =
    JUndefined
  | JNumber real
  | JString string
  | JArray "jsval list"

text \<open>A property object of the generic tree, \<^verbatim>\<open>{ type, value }\<close>.\<close>

record property =
  ptype :: string
  pvalue :: jsval

text \<open>
  One edge of the connection graph, \<^verbatim>\<open>{ ID, relationship }\<close>; the relationship is
  \<^verbatim>\<open>undefined\<close> (\<open>None\<close>) when the raw connection has no third element. A raw
  connection is the array \<^verbatim>\<open>[fromID, toID, relationship]\<close>, and the connection map a
  JavaScript Map from IDs to \<^verbatim>\<open>{ parents, children }\<close>.
\<close>

record connection =
  ID :: int
  relationship :: "string option"

record relationships =
  parents :: "connection list"
  children :: "connection list"

type_synonym connectionMap = "int \<rightharpoonup> relationships"

type_synonym rawConnection = "int \<times> int \<times> string option"

record connectionsSection =
  section_connections :: "rawConnection list option"

subsection \<open>parseConnections\<close>

definition setIfMissing :: "connectionMap \<Rightarrow> int \<Rightarrow> connectionMap" where
  "setIfMissing connectionMap k =
     (case connectionMap k of
        None \<Rightarrow> connectionMap(k \<mapsto> \<lparr>parents = [], children = []\<rparr>)
      | Some _ \<Rightarrow> connectionMap)"

definition pushParent :: "connectionMap \<Rightarrow> int \<Rightarrow> connection \<Rightarrow> connectionMap" where
  "pushParent connectionMap k c =
     (case connectionMap k of
        None \<Rightarrow> connectionMap
      | Some e \<Rightarrow> connectionMap(k \<mapsto> e\<lparr>parents := parents e @ [c]\<rparr>))"

definition pushChild :: "connectionMap \<Rightarrow> int \<Rightarrow> connection \<Rightarrow> connectionMap" where
  "pushChild connectionMap k c =
     (case connectionMap k of
        None \<Rightarrow> connectionMap
      | Some e \<Rightarrow> connectionMap(k \<mapsto> e\<lparr>children := children e @ [c]\<rparr>))"

text \<open>The body of \<^verbatim>\<open>rawConnections.forEach\<close>, one raw connection at a time.\<close>

definition addConnection :: "connectionMap \<Rightarrow> rawConnection \<Rightarrow> connectionMap" where
  "addConnection connectionMap rawConnection =
     (case rawConnection of (fromID, toID, rel) \<Rightarrow>
        let m1 = setIfMissing connectionMap fromID;
            parentRelationship = \<lparr>ID = toID, relationship = rel\<rparr>;
            m2 = pushParent m1 fromID parentRelationship;
            m3 = setIfMissing m2 toID;
            childRelationship = \<lparr>ID = fromID, relationship = rel\<rparr>
        in pushChild m3 toID childRelationship)"

text \<open>
  \<^verbatim>\<open>parseConnections\<close>: no \<^verbatim>\<open>Connections\<close> section gives the empty map; a section
  without a \<^verbatim>\<open>connections\<close> array makes \<^verbatim>\<open>rawConnections.forEach\<close> raise.
\<close>

definition parseConnections :: "connectionsSection option \<Rightarrow> error + connectionMap" where
  "parseConnections Connections =
     (case Connections of
        None \<Rightarrow> Inr Map.empty
      | Some sec \<Rightarrow>
          (case section_connections sec of
             None \<Rightarrow> Inl (TypeError ''rawConnections.forEach'')
           | Some rawConnections \<Rightarrow> Inr (foldl addConnection Map.empty rawConnections)))"

text \<open>The edges a list of raw connections gives one ID, in input order.\<close>

definition parentEdges :: "int \<Rightarrow> rawConnection list \<Rightarrow> connection list" where
  "parentEdges x raw =
     map (\<lambda>(f, t, l). \<lparr>ID = t, relationship = l\<rparr>) (filter (\<lambda>(f, t, l). f = x) raw)"

definition childEdges :: "int \<Rightarrow> rawConnection list \<Rightarrow> connection list" where
  "childEdges x raw =
     map (\<lambda>(f, t, l). \<lparr>ID = f, relationship = l\<rparr>) (filter (\<lambda>(f, t, l). t = x) raw)"

definition mentioned :: "int \<Rightarrow> rawConnection list \<Rightarrow> bool" where
  "mentioned x raw = list_ex (\<lambda>(f, t, l). f = x \<or> t = x) raw"

text \<open>\<^verbatim>\<open>values[i]\<close> on a value: reading an index of \<^verbatim>\<open>undefined\<close> raises.\<close>

fun index :: "jsval \<Rightarrow> nat \<Rightarrow> error + jsval" where
  "index JUndefined i = Inl (TypeError ''values[i]'')"
| "index (JNumber n) i = Inr JUndefined"
| "index (JString s) i = Inr (if i < length s then JString [s ! i] else JUndefined)"
| "index (JArray xs) i = Inr (if i < length xs then xs ! i else JUndefined)"

subsection \<open>FBXLoader.parse\<close>

text \<open>
  \<^verbatim>\<open>FBXLoader.parse\<close> calls the format sniffers, the two tree decoders and the tree
  parser. The sniffers and the decoders are not part of the source file; they are the
  fields of \<open>env\<close>, so that every statement about \<open>parse\<close> holds whatever they compute.
  A decoder or \<^verbatim>\<open>getFbxVersion\<close> may raise, hence their sum types.
\<close>

record ('buf, 'tree, 'scene) env =
  isFbxFormatBinary :: "'buf \<Rightarrow> bool"
  convertArrayBufferToString :: "'buf \<Rightarrow> string"
  isFbxFormatASCII :: "string \<Rightarrow> bool"
  getFbxVersion :: "string \<Rightarrow> error + real"
  binaryParse :: "'buf \<Rightarrow> error + 'tree"
  textParse :: "string \<Rightarrow> error + 'tree"
  treeParse :: "'tree \<Rightarrow> error + 'scene"

definition parse :: "('buf, 'tree, 'scene) env \<Rightarrow> 'buf \<Rightarrow> error + 'scene" where
  "parse e FBXBuffer =
     (if isFbxFormatBinary e FBXBuffer then
        (case binaryParse e FBXBuffer of
           Inl err \<Rightarrow> Inl err
         | Inr fbxTree \<Rightarrow> treeParse e fbxTree)
      else
        let FBXText = convertArrayBufferToString e FBXBuffer in
        if \<not> isFbxFormatASCII e FBXText then Inl (Error ''THREE.FBXLoader: Unknown format.'')
        else
          (case getFbxVersion e FBXText of
             Inl err \<Rightarrow> Inl err
           | Inr version \<Rightarrow>
               if version < 7000 then
                 Inl (ErrorWith ''THREE.FBXLoader: FBX version not supported, FileVersion: '' version)
               else
                 (case textParse e FBXText of
                    Inl err \<Rightarrow> Inl err
                  | Inr fbxTree \<Rightarrow> treeParse e fbxTree)))"

subsection \<open>parseTexture\<close>

datatype wrapping = RepeatWrapping | ClampToEdgeWrapping

record textureNode =
  texture_id :: int
  texture_attrName :: jsval
  WrapModeU :: "property option"
  WrapModeV :: "property option"
  Scaling :: "property option"

text \<open>
  The fields of a three.js \<^verbatim>\<open>Texture\<close> that \<^verbatim>\<open>parseTexture\<close> writes; \<open>repeat\<close> is
  the pair \<^verbatim>\<open>(repeat.x, repeat.y)\<close>.
\<close>

record texture =
  texture_ID :: "int option"
  texture_name :: jsval
  wrapS :: wrapping
  wrapT :: wrapping
  repeat :: "jsval \<times> jsval"

text \<open>
  \<^verbatim>\<open>parseTexture\<close>. The texture object itself comes from \<^verbatim>\<open>loadTexture\<close>, which
  hands the file to an external texture loader; it is the parameter \<open>loadTexture\<close>
  and may raise.
\<close>

definition parseTexture ::
  "(textureNode \<Rightarrow> 'images \<Rightarrow> error + texture) \<Rightarrow> textureNode \<Rightarrow> 'images \<Rightarrow> error + texture"
where
  "parseTexture loadTexture textureNode images =
     (case loadTexture textureNode images of
        Inl err \<Rightarrow> Inl err
      | Inr loaded \<Rightarrow>
          let t1 = loaded\<lparr>texture_ID := Some (texture_id textureNode),
                          texture_name := texture_attrName textureNode\<rparr>;
              wrapModeU = WrapModeU textureNode;
              wrapModeV = WrapModeV textureNode;
              valueU = (case wrapModeU of Some p \<Rightarrow> pvalue p | None \<Rightarrow> JNumber 0);
              valueV = (case wrapModeV of Some p \<Rightarrow> pvalue p | None \<Rightarrow> JNumber 0);
              t2 = t1\<lparr>wrapS := (if valueU = JNumber 0 then RepeatWrapping else ClampToEdgeWrapping),
                      wrapT := (if valueV = JNumber 0 then RepeatWrapping else ClampToEdgeWrapping)\<rparr>
          in (case Scaling textureNode of
                None \<Rightarrow> Inr t2
              | Some p \<Rightarrow>
                  (case index (pvalue p) 0 of
                     Inl err \<Rightarrow> Inl err
                   | Inr x \<Rightarrow>
                       (case index (pvalue p) 1 of
                          Inl err \<Rightarrow> Inl err
                        | Inr y \<Rightarrow> Inr (t2\<lparr>repeat := (x, y)\<rparr>)))))"

subsection \<open>parseMaterials and parseMaterial\<close>

text \<open>
  \<^verbatim>\<open>ShadingModel\<close> of a Material node is a string, or a property object wrapping the
  string (\<^verbatim>\<open>typeof type === 'object'\<close>), or missing.
\<close>

datatype shadingModel =
    ShadingUndefined
  | ShadingString string
  | ShadingProperty property

record materialNode =
  material_id :: int
  material_attrName :: jsval
  ShadingModel :: shadingModel

datatype materialType = MeshPhongMaterial | MeshLambertMaterial

text \<open>
  A three.js material: its class, the parameter bag given to \<^verbatim>\<open>setValues\<close>, its name,
  and the two flags that \<^verbatim>\<open>createMesh\<close> sets later.
\<close>

record 'p material =
  material_type :: materialType
  parameters :: 'p
  material_name :: jsval
  vertexColors :: bool
  skinning :: bool

text \<open>\<^verbatim>\<open>String.prototype.toLowerCase\<close> on the ASCII letters.\<close>

definition lowerChar :: "char \<Rightarrow> char" where
  "lowerChar c =
     (case map_of (zip ''ABCDEFGHIJKLMNOPQRSTUVWXYZ'' ''abcdefghijklmnopqrstuvwxyz'') c of
        Some d \<Rightarrow> d
      | None \<Rightarrow> c)"

text \<open>\<^verbatim>\<open>type.toLowerCase()\<close>: only a string has the method.\<close>

fun toLowerCase :: "jsval \<Rightarrow> error + string" where
  "toLowerCase (JString s) = Inr (map lowerChar s)"
| "toLowerCase v = Inl (TypeError ''type.toLowerCase()'')"

definition unwrapShadingModel :: "shadingModel \<Rightarrow> jsval" where
  "unwrapShadingModel t =
     (case t of
        ShadingUndefined \<Rightarrow> JUndefined
      | ShadingString s \<Rightarrow> JString s
      | ShadingProperty p \<Rightarrow> pvalue p)"

text \<open>
  \<^verbatim>\<open>parseMaterial\<close>; the result \<open>None\<close> is \<^verbatim>\<open>null\<close>. \<^verbatim>\<open>parseParameters\<close> (the
  mapping of material properties and texture channels to the parameter bag) is the
  parameter \<open>parseParameters\<close> and may raise. \<open>connections\<close> is the global connection
  map.
\<close>

definition parseMaterial ::
  "(materialNode \<Rightarrow> 'tm \<Rightarrow> int \<Rightarrow> error + 'p) \<Rightarrow> connectionMap \<Rightarrow> materialNode \<Rightarrow> 'tm
     \<Rightarrow> error + 'p material option"
where
  "parseMaterial parseParameters connections materialNode textureMap =
     (let ID = material_id materialNode;
          name = material_attrName materialNode;
          type = unwrapShadingModel (ShadingModel materialNode)
      in if connections ID = None then Inr None
         else
           (case parseParameters materialNode textureMap ID of
              Inl err \<Rightarrow> Inl err
            | Inr params \<Rightarrow>
                (case toLowerCase type of
                   Inl err \<Rightarrow> Inl err
                 | Inr t \<Rightarrow>
                     Inr (Some \<lparr>material_type =
                                  (if t = ''phong'' then MeshPhongMaterial
                                   else if t = ''lambert'' then MeshLambertMaterial
                                   else MeshPhongMaterial),
                                parameters = params, material_name = name,
                                vertexColors = False, skinning = False\<rparr>))))"

text \<open>The \<^verbatim>\<open>for (let nodeID in materialNodes)\<close> loop of \<^verbatim>\<open>parseMaterials\<close>.\<close>

fun parseMaterialsLoop ::
  "(materialNode \<Rightarrow> 'tm \<Rightarrow> int \<Rightarrow> error + 'p) \<Rightarrow> connectionMap \<Rightarrow> 'tm
     \<Rightarrow> (int \<times> materialNode) list \<Rightarrow> (int \<rightharpoonup> 'p material) \<Rightarrow> error + (int \<rightharpoonup> 'p material)"
where
  "parseMaterialsLoop parseParameters connections textureMap [] materialMap = Inr materialMap"
| "parseMaterialsLoop parseParameters connections textureMap ((nodeID, node) # rest) materialMap =
     (case parseMaterial parseParameters connections node textureMap of
        Inl err \<Rightarrow> Inl err
      | Inr None \<Rightarrow> parseMaterialsLoop parseParameters connections textureMap rest materialMap
      | Inr (Some m) \<Rightarrow>
          parseMaterialsLoop parseParameters connections textureMap rest (materialMap(nodeID \<mapsto> m)))"

text \<open>
  \<^verbatim>\<open>parseMaterials\<close>; \<open>Material\<close> is \<^verbatim>\<open>fbxTree.Objects.Material\<close>, \<open>None\<close> when the
  tree has no Material nodes.
\<close>

definition parseMaterials ::
  "(materialNode \<Rightarrow> 'tm \<Rightarrow> int \<Rightarrow> error + 'p) \<Rightarrow> connectionMap
     \<Rightarrow> (int \<times> materialNode) list option \<Rightarrow> 'tm \<Rightarrow> error + (int \<rightharpoonup> 'p material)"
where
  "parseMaterials parseParameters connections Material textureMap =
     (case Material of
        None \<Rightarrow> Inr Map.empty
      | Some materialNodes \<Rightarrow>
          parseMaterialsLoop parseParameters connections textureMap materialNodes Map.empty)"

subsection \<open>createMesh\<close>

text \<open>
  What \<^verbatim>\<open>createMesh\<close> reads of a geometry built by the geometry parser: the names of
  its attributes and whether \<^verbatim>\<open>FBX_Deformer\<close> is set.
\<close>

record geometry =
  attributes :: "string list"
  FBX_Deformer :: bool

text \<open>
  The material of a mesh refers to objects of the material registry, which are shared
  and mutated; a registered material is named by its key. \<open>DefaultPhong c v s\<close> is the
  fresh \<^verbatim>\<open>new MeshPhongMaterial({ color: c })\<close> with its two flags.
\<close>

datatype meshMaterial =
    MaterialRef int
  | MaterialList "int list"
  | DefaultPhong nat bool bool

datatype meshType = Mesh | SkinnedMesh

record mesh =
  mesh_type :: meshType
  mesh_geometry :: int
  mesh_material :: meshMaterial

definition setEach ::
  "('p material \<Rightarrow> 'p material) \<Rightarrow> int list \<Rightarrow> (int \<rightharpoonup> 'p material) \<Rightarrow> (int \<rightharpoonup> 'p material)"
where
  "setEach f materials materialMap =
     foldl (\<lambda>m k. m(k := map_option f (m k))) materialMap materials"

text \<open>
  \<^verbatim>\<open>createMesh\<close> returns the mesh and the material registry with the flags it set.
  With no geometry among the children \<^verbatim>\<open>geometry\<close> stays \<^verbatim>\<open>null\<close> and
  \<^verbatim>\<open>geometry.attributes\<close> raises. For a geometry with \<^verbatim>\<open>FBX_Deformer\<close> the mesh is a
  \<^verbatim>\<open>SkinnedMesh\<close> and \<^verbatim>\<open>model.normalizeSkinWeights()\<close> is called: this method of
  three.js reads \<^verbatim>\<open>this.geometry.attributes.skinWeight.count\<close> and so raises when the
  geometry has no \<^verbatim>\<open>skinWeight\<close> attribute; otherwise it rescales the weights, which
  are not part of this model. (The geometries are the \<^verbatim>\<open>BufferGeometry\<close> objects of the
  geometry parser, on which the constructors of \<^verbatim>\<open>Mesh\<close> and \<^verbatim>\<open>SkinnedMesh\<close> do not
  raise.)
\<close>

definition createMesh ::
  "relationships \<Rightarrow> (int \<rightharpoonup> geometry) \<Rightarrow> (int \<rightharpoonup> 'p material)
     \<Rightarrow> error + (mesh \<times> (int \<rightharpoonup> 'p material))"
where
  "createMesh rel geometryMap materialMap =
     (let geometry = foldl (\<lambda>geo child.
                        case geometryMap (ID child) of
                          Some g \<Rightarrow> Some (ID child, g)
                        | None \<Rightarrow> geo) None (children rel);
          materials = map ID (filter (\<lambda>child. materialMap (ID child) \<noteq> None) (children rel))
      in case geometry of
           None \<Rightarrow> Inl (TypeError ''geometry.attributes'')
         | Some (gid, g) \<Rightarrow>
             let hasColor = (''color'' \<in> set (attributes g));
                 deformed = FBX_Deformer g;
                 material =
                   (if length materials > 1 then MaterialList materials
                    else (case materials of
                            m # _ \<Rightarrow> MaterialRef m
                          | [] \<Rightarrow> DefaultPhong 0xcccccc hasColor deformed));
                 mm1 = (if hasColor then setEach (\<lambda>m. m\<lparr>vertexColors := True\<rparr>) materials materialMap
                        else materialMap);
                 mm2 = (if deformed then setEach (\<lambda>m. m\<lparr>skinning := True\<rparr>) materials mm1
                        else mm1)
             in if deformed then
                  (if ''skinWeight'' \<in> set (attributes g)
                   then Inr (\<lparr>mesh_type = SkinnedMesh, mesh_geometry = gid,
                              mesh_material = material\<rparr>, mm2)
                   else Inl (TypeError ''skinWeight.count''))
                else Inr (\<lparr>mesh_type = Mesh, mesh_geometry = gid, mesh_material = material\<rparr>, mm2))"

text \<open>
  The geometry that \<^verbatim>\<open>createMesh\<close> ends with: that of the last child whose ID is in
  the geometry map.
\<close>

definition lastGeometry :: "relationships \<Rightarrow> (int \<rightharpoonup> geometry) \<Rightarrow> geometry option" where
  "lastGeometry rel geometryMap =
     (case rev (filter (\<lambda>child. geometryMap (ID child) \<noteq> None) (children rel)) of
        [] \<Rightarrow> None
      | child # _ \<Rightarrow> geometryMap (ID child))"

subsection \<open>Loops that may raise\<close>

text \<open>
  \<^verbatim>\<open>forEach\<close> and \<^verbatim>\<open>for ... in\<close> with a body that may raise: the first error ends
  the loop and is the result.
\<close>

fun foldE :: "('s \<Rightarrow> 'a \<Rightarrow> error + 's) \<Rightarrow> 'a list \<Rightarrow> 's \<Rightarrow> error + 's" where
  "foldE f [] s = Inr s"
| "foldE f (x # xs) s = (case f s x of Inl err \<Rightarrow> Inl err | Inr s' \<Rightarrow> foldE f xs s')"

text \<open>
  \<^verbatim>\<open>obj[key] = value\<close> on an object kept as an association list: an existing key keeps
  its place and a new key comes last. (The loader assigns keys in the order in which it
  enumerates the table they come from, so the list stays in enumeration order.)
\<close>

definition assign :: "int \<Rightarrow> 'v \<Rightarrow> (int \<times> 'v) list \<Rightarrow> (int \<times> 'v) list" where
  "assign k v obj =
     (if map_of obj k = None then obj @ [(k, v)]
      else map (\<lambda>(k', v'). if k' = k then (k', v) else (k', v')) obj)"

subsection \<open>parseDeformers, parseSkeleton and parseMorphTargets\<close>

text \<open>An array property of the tree, \<^verbatim>\<open>{ a: [...] }\<close>.\<close>

record arrayProperty =
  prop_a :: jsval

text \<open>
  A node of \<^verbatim>\<open>fbxTree.Objects.Deformer\<close> (Skin, Cluster, BlendShape and
  BlendShapeChannel nodes share the table), with the fields the three functions read.
\<close>

record deformerNode =
  deformer_id :: jsval
  deformer_attrName :: jsval
  deformer_attrType :: jsval
  TransformLink :: "arrayProperty option"
  Indexes :: "arrayProperty option"
  Weights :: "arrayProperty option"
  DeformPercent :: jsval
  FullWeights :: "arrayProperty option"

text \<open>
  \<^verbatim>\<open>new Matrix4().fromArray(array)\<close> of three.js copies \<^verbatim>\<open>array[0]\<close> to
  \<^verbatim>\<open>array[15]\<close>; it raises when \<^verbatim>\<open>array\<close> is \<^verbatim>\<open>undefined\<close>.
\<close>

definition fromArray :: "jsval \<Rightarrow> error + jsval list" where
  "fromArray array =
     (if array = JUndefined then Inl (TypeError ''array[i + offset]'')
      else Inr (map (\<lambda>i. case index array i of Inr x \<Rightarrow> x | Inl _ \<Rightarrow> JUndefined) [0..<16]))"

record rawBone =
  rawBone_ID :: int
  indices :: jsval
  weights :: jsval
  transformLink :: "jsval list"

text \<open>
  A raw skeleton. \<open>bones\<close> is the JavaScript array of constructed joints, a joint
  being named by its address; \<open>None\<close> is a hole of the array. \<open>skeleton_ID\<close> and
  \<open>geometryID\<close> are assigned by \<^verbatim>\<open>parseDeformers\<close>.
\<close>

record skeleton =
  rawBones :: "rawBone list"
  bones :: "nat option list"
  skeleton_ID :: "int option"
  geometryID :: "int option"

text \<open>
  The callback of \<^verbatim>\<open>relationships.children.forEach\<close> in \<^verbatim>\<open>parseSkeleton\<close>, for one
  child: \<open>Inr None\<close> is its early \<^verbatim>\<open>return\<close>, \<open>Inr (Some b)\<close> the raw bone it pushes.
\<close>

definition parseBone :: "(int \<times> deformerNode) list \<Rightarrow> connection \<Rightarrow> error + rawBone option" where
  "parseBone deformerNodes child =
     (case map_of deformerNodes (ID child) of
        None \<Rightarrow> Inl (TypeError ''boneNode.attrType'')
      | Some boneNode \<Rightarrow>
          if deformer_attrType boneNode \<noteq> JString ''Cluster'' then Inr None
          else
            (case TransformLink boneNode of
               None \<Rightarrow> Inl (TypeError ''boneNode.TransformLink.a'')
             | Some link \<Rightarrow>
                 (case fromArray (prop_a link) of
                    Inl err \<Rightarrow> Inl err
                  | Inr matrix \<Rightarrow>
                      let rawBone = \<lparr>rawBone_ID = ID child, indices = JArray [], weights = JArray [],
                                     transformLink = matrix\<rparr>
                      in (case Indexes boneNode of
                            None \<Rightarrow> Inr (Some rawBone)
                          | Some ix \<Rightarrow>
                              (case Weights boneNode of
                                 None \<Rightarrow> Inl (TypeError ''boneNode.Weights.a'')
                               | Some w \<Rightarrow>
                                   Inr (Some (rawBone\<lparr>indices := prop_a ix, weights := prop_a w\<rparr>)))))))"

definition pushBone ::
  "(int \<times> deformerNode) list \<Rightarrow> rawBone list \<Rightarrow> connection \<Rightarrow> error + rawBone list"
where
  "pushBone deformerNodes acc child =
     (case parseBone deformerNodes child of
        Inl err \<Rightarrow> Inl err
      | Inr None \<Rightarrow> Inr acc
      | Inr (Some rawBone) \<Rightarrow> Inr (acc @ [rawBone]))"

text \<open>
  \<^verbatim>\<open>parseSkeleton\<close>; \<open>relationships\<close> is \<^verbatim>\<open>connections.get(...)\<close>, \<open>None\<close> when the
  deformer has no entry in the connection map.
\<close>

definition parseSkeleton ::
  "relationships option \<Rightarrow> (int \<times> deformerNode) list \<Rightarrow> error + skeleton"
where
  "parseSkeleton relationships deformerNodes =
     (case relationships of
        None \<Rightarrow> Inl (TypeError ''relationships.children'')
      | Some rel \<Rightarrow>
          (case foldE (pushBone deformerNodes) (children rel) [] of
             Inl err \<Rightarrow> Inl err
           | Inr bs \<Rightarrow> Inr \<lparr>rawBones = bs, bones = [], skeleton_ID = None, geometryID = None\<rparr>))"

record rawMorphTarget =
  morph_name :: jsval
  initialWeight :: jsval
  morph_id :: jsval
  fullWeights :: jsval
  geoID :: int

text \<open>
  The \<^verbatim>\<open>for\<close> loop of \<^verbatim>\<open>parseMorphTargets\<close> over the remaining children, \<open>acc\<close> being
  \<^verbatim>\<open>rawMorphTargets\<close>. The result \<open>Inr None\<close> is the bare \<^verbatim>\<open>return\<close>, that is
  \<^verbatim>\<open>undefined\<close>. The object literal reads \<^verbatim>\<open>morphTargetNode.FullWeights.a\<close> before
  the test of \<^verbatim>\<open>attrType\<close>.
\<close>

fun morphTargetsLoop ::
  "connectionMap \<Rightarrow> (int \<times> deformerNode) list \<Rightarrow> connection list \<Rightarrow> rawMorphTarget list
     \<Rightarrow> error + rawMorphTarget list option"
where
  "morphTargetsLoop conns deformerNodes [] acc = Inr (Some acc)"
| "morphTargetsLoop conns deformerNodes (child # rest) acc =
     (case map_of deformerNodes (ID child) of
        None \<Rightarrow> Inl (TypeError ''morphTargetNode.attrName'')
      | Some morphTargetNode \<Rightarrow>
          (case FullWeights morphTargetNode of
             None \<Rightarrow> Inl (TypeError ''morphTargetNode.FullWeights.a'')
           | Some fw \<Rightarrow>
               if deformer_attrType morphTargetNode \<noteq> JString ''BlendShapeChannel'' then Inr None
               else
                 (case conns (ID child) of
                    None \<Rightarrow> Inl (TypeError ''connections.get(parseInt(child.ID)).children'')
                  | Some rel \<Rightarrow>
                      (case filter (\<lambda>c. relationship c = None) (children rel) of
                         [] \<Rightarrow> Inl (TypeError ''filter(...)[0].ID'')
                       | c # _ \<Rightarrow>
                           morphTargetsLoop conns deformerNodes rest
                             (acc @ [\<lparr>morph_name = deformer_attrName morphTargetNode,
                                      initialWeight = DeformPercent morphTargetNode,
                                      morph_id = deformer_id morphTargetNode,
                                      fullWeights = prop_a fw,
                                      geoID = ID c\<rparr>])))))"

definition parseMorphTargets ::
  "connectionMap \<Rightarrow> relationships option \<Rightarrow> (int \<times> deformerNode) list
     \<Rightarrow> error + rawMorphTarget list option"
where
  "parseMorphTargets conns relationships deformerNodes =
     (case relationships of
        None \<Rightarrow> Inl (TypeError ''relationships.children'')
      | Some rel \<Rightarrow> morphTargetsLoop conns deformerNodes (children rel) [])"

record morphTarget =
  morphTarget_id :: int
  rawTargets :: "rawMorphTarget list option"

record deformers =
  deformers_skeletons :: "(int \<times> skeleton) list"
  deformers_morphTargets :: "(int \<times> morphTarget) list"

text \<open>
  The body of the \<^verbatim>\<open>for (let nodeID in DeformerNodes)\<close> loop of \<^verbatim>\<open>parseDeformers\<close>.
  \<^verbatim>\<open>relationships.parents[0]\<close> is \<^verbatim>\<open>undefined\<close> for an empty list, and reading its
  \<^verbatim>\<open>ID\<close> raises. (The warnings are not modelled.)
\<close>

definition parseDeformer ::
  "connectionMap \<Rightarrow> (int \<times> deformerNode) list \<Rightarrow> deformers \<Rightarrow> int \<times> deformerNode \<Rightarrow> error + deformers"
where
  "parseDeformer conns DeformerNodes acc entry =
     (case entry of (nodeID, deformerNode) \<Rightarrow>
        let relationships = conns nodeID in
        if deformer_attrType deformerNode = JString ''Skin'' then
          (case parseSkeleton relationships DeformerNodes of
             Inl err \<Rightarrow> Inl err
           | Inr skeleton \<Rightarrow>
               (case relationships of
                  None \<Rightarrow> Inl (TypeError ''relationships.parents'')
                | Some rel \<Rightarrow>
                    (case parents rel of
                       [] \<Rightarrow> Inl (TypeError ''relationships.parents[0].ID'')
                     | p # _ \<Rightarrow>
                         Inr (acc\<lparr>deformers_skeletons :=
                                assign nodeID
                                  (skeleton\<lparr>skeleton_ID := Some nodeID, geometryID := Some (ID p)\<rparr>)
                                  (deformers_skeletons acc)\<rparr>))))
        else if deformer_attrType deformerNode = JString ''BlendShape'' then
          (case parseMorphTargets conns relationships DeformerNodes of
             Inl err \<Rightarrow> Inl err
           | Inr targets \<Rightarrow>
               (case relationships of
                  None \<Rightarrow> Inl (TypeError ''relationships.parents'')
                | Some rel \<Rightarrow>
                    Inr (acc\<lparr>deformers_morphTargets :=
                           assign nodeID \<lparr>morphTarget_id = nodeID, rawTargets = targets\<rparr>
                             (deformers_morphTargets acc)\<rparr>)))
        else Inr acc)"

text \<open>
  \<^verbatim>\<open>parseDeformers\<close>; \<open>Deformer\<close> is \<^verbatim>\<open>fbxTree.Objects.Deformer\<close>, \<open>None\<close> when the
  tree has no Deformer nodes.
\<close>

definition parseDeformers ::
  "connectionMap \<Rightarrow> (int \<times> deformerNode) list option \<Rightarrow> error + deformers"
where
  "parseDeformers conns Deformer =
     (case Deformer of
        None \<Rightarrow> Inr \<lparr>deformers_skeletons = [], deformers_morphTargets = []\<rparr>
      | Some DeformerNodes \<Rightarrow>
          foldE (parseDeformer conns DeformerNodes) DeformerNodes
            \<lparr>deformers_skeletons = [], deformers_morphTargets = []\<rparr>)"

text \<open>
  The conditions under which the loops above read a child without raising: a child of
  a Skin deformer resolves to a deformer node which, if it is a Cluster, has a
  \<^verbatim>\<open>TransformLink\<close> array and, with \<^verbatim>\<open>Indexes\<close>, also \<^verbatim>\<open>Weights\<close>; a child of a
  BlendShape deformer is a BlendShapeChannel with \<^verbatim>\<open>FullWeights\<close> and an unlabelled
  child connection.
\<close>

definition isCluster :: "(int \<times> deformerNode) list \<Rightarrow> connection \<Rightarrow> bool" where
  "isCluster deformerNodes child =
     (case map_of deformerNodes (ID child) of
        None \<Rightarrow> False
      | Some n \<Rightarrow> deformer_attrType n = JString ''Cluster'')"

definition readableBone :: "(int \<times> deformerNode) list \<Rightarrow> connection \<Rightarrow> bool" where
  "readableBone deformerNodes child =
     (case map_of deformerNodes (ID child) of
        None \<Rightarrow> False
      | Some n \<Rightarrow>
          deformer_attrType n \<noteq> JString ''Cluster''
          \<or> (case TransformLink n of
                None \<Rightarrow> False
              | Some link \<Rightarrow> prop_a link \<noteq> JUndefined \<and> (Indexes n = None \<or> Weights n \<noteq> None)))"

definition readableChannel :: "connectionMap \<Rightarrow> (int \<times> deformerNode) list \<Rightarrow> connection \<Rightarrow> bool" where
  "readableChannel conns deformerNodes child =
     (case map_of deformerNodes (ID child) of
        None \<Rightarrow> False
      | Some n \<Rightarrow>
          FullWeights n \<noteq> None \<and> deformer_attrType n = JString ''BlendShapeChannel''
          \<and> (case conns (ID child) of
                None \<Rightarrow> False
              | Some rel \<Rightarrow> filter (\<lambda>c. relationship c = None) (children rel) \<noteq> []))"

subsection \<open>Object3D.add\<close>

text \<open>
  The scene is built with \<^verbatim>\<open>Object3D.add\<close> of three.js, a library outside the
  repository. Its documented behaviour is written out here: adding an object to itself
  is refused with a message; otherwise the object is first removed from the parent it
  has (\<^verbatim>\<open>remove\<close> takes its first occurrence out of the children and sets its
  parent to \<^verbatim>\<open>null\<close>), then its parent is set and it is pushed onto the children of
  the new parent. \<open>object_parent h x = None\<close> is \<^verbatim>\<open>x.parent === null\<close>.
\<close>

record 'r hierarchy =
  object_parent :: "'r \<rightharpoonup> 'r"
  object_children :: "'r \<Rightarrow> 'r list"

definition Object3D_remove :: "'r hierarchy \<Rightarrow> 'r \<Rightarrow> 'r \<Rightarrow> 'r hierarchy" where
  "Object3D_remove h this object =
     (if object \<in> set (object_children h this) then
        h\<lparr>object_parent := (object_parent h)(object := None),
          object_children := (object_children h)(this := remove1 object (object_children h this))\<rparr>
      else h)"

definition Object3D_add :: "'r hierarchy \<Rightarrow> 'r \<Rightarrow> 'r \<Rightarrow> 'r hierarchy" where
  "Object3D_add h this object =
     (if object = this then h
      else
        let h1 = (case object_parent h object of
                    None \<Rightarrow> h
                  | Some p \<Rightarrow> Object3D_remove h p object)
        in h1\<lparr>object_parent := (object_parent h1)(object \<mapsto> this),
               object_children := (object_children h1)(this := object_children h1 this @ [object])\<rparr>)"

subsection \<open>buildSkeleton\<close>

text \<open>
  Joints are objects with identity: \<^verbatim>\<open>new Bone()\<close> allocates the next address of a
  heap, where the new joint has no parent and no children.
\<close>

record bone =
  bone_name :: string
  bone_ID :: int
  matrixWorld :: "jsval list"

record boneHeap =
  heap_bones :: "bone list"
  heap_tree :: "nat hierarchy"

definition newBone :: "boneHeap \<Rightarrow> bone \<Rightarrow> nat \<times> boneHeap" where
  "newBone heap b =
     (let address = length (heap_bones heap);
          tree = heap_tree heap
      in (address,
          \<lparr>heap_bones = heap_bones heap @ [b],
           heap_tree = tree\<lparr>object_parent := (object_parent tree)(address := None),
                             object_children := (object_children tree)(address := [])\<rparr>\<rparr>))"

text \<open>\<^verbatim>\<open>array[i] = v\<close>: an index past the end extends the array, leaving holes.\<close>

definition setAt :: "'a option list \<Rightarrow> nat \<Rightarrow> 'a \<Rightarrow> 'a option list" where
  "setAt xs i v =
     (if i < length xs then xs[i := Some v]
      else xs @ replicate (i - length xs) None @ [Some v])"

text \<open>
  The callback of \<^verbatim>\<open>skeleton.rawBones.forEach((rawBone, i) => ...)\<close>. The state is the
  local variable \<^verbatim>\<open>bone\<close>, the array \<^verbatim>\<open>skeleton.bones\<close> and the heap.
  \<open>sanitizeNodeName\<close> is \<^verbatim>\<open>PropertyBinding.sanitizeNodeName\<close> of three.js, a parameter.
\<close>

definition matchBone ::
  "(string \<Rightarrow> string) \<Rightarrow> int \<Rightarrow> string option \<Rightarrow> connection
     \<Rightarrow> nat option \<times> nat option list \<times> boneHeap \<Rightarrow> rawBone \<times> nat
     \<Rightarrow> nat option \<times> nat option list \<times> boneHeap"
where
  "matchBone sanitizeNodeName modelID name parent state entry =
     (case state of (bone, skeletonBones, heap) \<Rightarrow>
      case entry of (rawBone, i) \<Rightarrow>
        if rawBone_ID rawBone = ID parent then
          let subBone = bone;
              (b, heap1) = newBone heap
                 \<lparr>bone_name = (case name of
                                 None \<Rightarrow> []
                               | Some s \<Rightarrow> if s = [] then [] else sanitizeNodeName s),
                  bone_ID = modelID,
                  matrixWorld = transformLink rawBone\<rparr>;
              heap2 = (case subBone of
                         None \<Rightarrow> heap1
                       | Some sb \<Rightarrow> heap1\<lparr>heap_tree := Object3D_add (heap_tree heap1) b sb\<rparr>)
          in (Some b, setAt skeletonBones i b, heap2)
        else (bone, skeletonBones, heap))"

text \<open>One skeleton of the \<^verbatim>\<open>for (let ID in skeletons)\<close> loop.\<close>

definition matchSkeleton ::
  "(string \<Rightarrow> string) \<Rightarrow> int \<Rightarrow> string option \<Rightarrow> connection
     \<Rightarrow> nat option \<times> boneHeap \<Rightarrow> skeleton \<Rightarrow> skeleton \<times> nat option \<times> boneHeap"
where
  "matchSkeleton sanitizeNodeName modelID name parent state sk =
     (case state of (bone, heap) \<Rightarrow>
      case foldl (matchBone sanitizeNodeName modelID name parent) (bone, bones sk, heap)
             (zip (rawBones sk) [0..<length (rawBones sk)]) of
        (bone', skeletonBones, heap') \<Rightarrow> (sk\<lparr>bones := skeletonBones\<rparr>, bone', heap'))"

fun matchSkeletons ::
  "(string \<Rightarrow> string) \<Rightarrow> int \<Rightarrow> string option \<Rightarrow> connection
     \<Rightarrow> (int \<times> skeleton) list \<Rightarrow> nat option \<times> boneHeap
     \<Rightarrow> (int \<times> skeleton) list \<times> nat option \<times> boneHeap"
where
  "matchSkeletons sanitizeNodeName modelID name parent [] state = ([], state)"
| "matchSkeletons sanitizeNodeName modelID name parent ((k, sk) # rest) state =
     (case matchSkeleton sanitizeNodeName modelID name parent state sk of
        (sk', state') \<Rightarrow>
          (case matchSkeletons sanitizeNodeName modelID name parent rest state' of
             (rest', state'') \<Rightarrow> ((k, sk') # rest', state'')))"

text \<open>
  \<^verbatim>\<open>buildSkeleton\<close>: the result is the skeletons with their \<^verbatim>\<open>bones\<close> arrays
  written, the returned \<^verbatim>\<open>bone\<close> (\<open>None\<close> is \<^verbatim>\<open>null\<close>) and the heap.
\<close>

definition buildSkeleton ::
  "(string \<Rightarrow> string) \<Rightarrow> relationships option \<Rightarrow> (int \<times> skeleton) list \<Rightarrow> int \<Rightarrow> string option
     \<Rightarrow> boneHeap \<Rightarrow> error + ((int \<times> skeleton) list \<times> nat option \<times> boneHeap)"
where
  "buildSkeleton sanitizeNodeName relationships sks modelID name heap =
     (case relationships of
        None \<Rightarrow> Inl (TypeError ''relationships.parents'')
      | Some rel \<Rightarrow>
          Inr (foldl (\<lambda>state parent.
                        case state of (sks', st) \<Rightarrow>
                          matchSkeletons sanitizeNodeName modelID name parent sks' st)
                 (sks, None, heap) (parents rel)))"

text \<open>
  How often the test \<^verbatim>\<open>rawBone.ID === parent.ID\<close> succeeds over the three nested
  loops of \<^verbatim>\<open>buildSkeleton\<close>.
\<close>

definition matchCount :: "relationships \<Rightarrow> (int \<times> skeleton) list \<Rightarrow> nat" where
  "matchCount rel sks =
     length (concat (map (\<lambda>parent.
        concat (map (\<lambda>(k, sk). filter (\<lambda>rawBone. rawBone_ID rawBone = ID parent) (rawBones sk)) sks))
        (parents rel)))"

text \<open>
  The matches of one parent connection over all skeletons, and the shape of the heap
  after \<open>k\<close> joints have been constructed on top of \<open>n0\<close> older objects: the local
  variable \<^verbatim>\<open>bone\<close> is the newest joint, which has no parent, and every joint but
  the first has the joint constructed before it as its only child.
\<close>

definition skeletonMatches :: "connection \<Rightarrow> (int \<times> skeleton) list \<Rightarrow> nat" where
  "skeletonMatches p sks =
     length (concat (map (\<lambda>(k, sk). filter (\<lambda>rawBone. rawBone_ID rawBone = ID p) (rawBones sk)) sks))"

definition chain :: "nat \<Rightarrow> nat \<Rightarrow> nat option \<times> boneHeap \<Rightarrow> bool" where
  "chain n0 k state =
     (case state of (bone, heap) \<Rightarrow>
        length (heap_bones heap) = n0 + k
        \<and> bone = (if k = 0 then None else Some (n0 + k - 1))
        \<and> (0 < k \<longrightarrow> object_parent (heap_tree heap) (n0 + k - 1) = None)
        \<and> (\<forall>j. j + 1 < k \<longrightarrow>
              object_children (heap_tree heap) (n0 + j + 1) = [n0 + j]
              \<and> object_parent (heap_tree heap) (n0 + j) = Some (n0 + j + 1)))"

text \<open>
  A raw bone shared by skeletons: the model is connected to a parent whose \<^verbatim>\<open>ID\<close> is
  the \<^verbatim>\<open>ID\<close> of a raw bone in at least two of the skeletons.
\<close>

definition sharedBone :: "relationships \<Rightarrow> (int \<times> skeleton) list \<Rightarrow> bool" where
  "sharedBone rel sks =
     list_ex (\<lambda>parent.
        2 \<le> length (filter (\<lambda>(k, sk). list_ex (\<lambda>rawBone. rawBone_ID rawBone = ID parent) (rawBones sk)) sks))
       (parents rel)"

subsection \<open>Hierarchy assembly in parseScene\<close>

text \<open>
  The objects of the scene: the root \<^verbatim>\<open>sceneGraph\<close>, the model stored in
  \<^verbatim>\<open>modelMap\<close> under a key (every value of the map is an object of its own), and the
  \<^verbatim>\<open>target\<close> object of such a model, which directional and spot lights have.
\<close>

datatype ref = SceneGraph | Model int | Target int

record modelNode =
  LookAtProperty :: bool
  Lcl_Translation :: "property option"

record model =
  model_ID :: int
  has_target :: bool

text \<open>
  \<^verbatim>\<open>setLookAtProperties\<close>, as far as it changes the hierarchy: a light's target is
  added to the scene root; \<^verbatim>\<open>model.lookAt\<close> only turns the model. \<open>LookAtProperty\<close>
  is \<^verbatim>\<open>'LookAtProperty' in modelNode\<close>.
\<close>

definition lookAtChild ::
  "(int \<times> modelNode) list \<Rightarrow> int \<Rightarrow> model \<Rightarrow> ref hierarchy \<Rightarrow> connection \<Rightarrow> error + ref hierarchy"
where
  "lookAtChild modelNodes key model h child =
     (if relationship child = Some ''LookAtProperty'' then
        (case map_of modelNodes (ID child) of
           None \<Rightarrow> Inl (TypeError ''Lcl_Translation in lookAtTarget'')
         | Some lookAtTarget \<Rightarrow>
             (case Lcl_Translation lookAtTarget of
                None \<Rightarrow> Inr h
              | Some translation \<Rightarrow>
                  if pvalue translation = JUndefined then Inl (TypeError ''fromArray(pos)'')
                  else if has_target model then Inr (Object3D_add h SceneGraph (Target key))
                  else Inr h))
      else Inr h)"

definition setLookAtProperties ::
  "connectionMap \<Rightarrow> (int \<times> modelNode) list \<Rightarrow> int \<Rightarrow> model \<Rightarrow> modelNode \<Rightarrow> ref hierarchy
     \<Rightarrow> error + ref hierarchy"
where
  "setLookAtProperties conns modelNodes key model modelNode h =
     (if LookAtProperty modelNode then
        (case conns (model_ID model) of
           None \<Rightarrow> Inl (TypeError ''connections.get(model.ID).children'')
         | Some rel \<Rightarrow> foldE (lookAtChild modelNodes key model) (children rel) h)
      else Inr h)"

text \<open>
  The callback of \<^verbatim>\<open>parentConnections.forEach\<close>: \<^verbatim>\<open>modelMap.get(connection.ID)\<close>,
  when defined, is the model stored under that key.
\<close>

definition addToParent ::
  "(int \<times> model) list \<Rightarrow> int \<Rightarrow> ref hierarchy \<Rightarrow> connection \<Rightarrow> ref hierarchy"
where
  "addToParent modelMap key h connection =
     (case map_of modelMap (ID connection) of
        None \<Rightarrow> h
      | Some parent \<Rightarrow> Object3D_add h (Model (ID connection)) (Model key))"

text \<open>The callback of \<^verbatim>\<open>modelMap.forEach\<close> in \<^verbatim>\<open>parseScene\<close>.\<close>

definition attachModel ::
  "connectionMap \<Rightarrow> (int \<times> modelNode) list \<Rightarrow> (int \<times> model) list \<Rightarrow> ref hierarchy
     \<Rightarrow> int \<times> model \<Rightarrow> error + ref hierarchy"
where
  "attachModel conns modelNodes modelMap h entry =
     (case entry of (key, model) \<Rightarrow>
        (case map_of modelNodes (model_ID model) of
           None \<Rightarrow> Inl (TypeError ''LookAtProperty in modelNode'')
         | Some modelNode \<Rightarrow>
             (case setLookAtProperties conns modelNodes key model modelNode h of
                Inl err \<Rightarrow> Inl err
              | Inr h1 \<Rightarrow>
                  (case conns (model_ID model) of
                     None \<Rightarrow> Inl (TypeError ''connections.get(model.ID).parents'')
                   | Some rel \<Rightarrow>
                       let h2 = foldl (addToParent modelMap key) h1 (parents rel)
                       in Inr (if object_parent h2 (Model key) = None
                               then Object3D_add h2 SceneGraph (Model key)
                               else h2)))))"

text \<open>
  The loop over \<^verbatim>\<open>modelMap\<close> (a JavaScript Map, here its entries in insertion
  order; the keys of a Map are distinct), starting from the new, empty
  \<^verbatim>\<open>sceneGraph\<close> and models without parents.
\<close>

definition attachModels ::
  "connectionMap \<Rightarrow> (int \<times> modelNode) list \<Rightarrow> (int \<times> model) list \<Rightarrow> error + ref hierarchy"
where
  "attachModels conns modelNodes modelMap =
     foldE (attachModel conns modelNodes modelMap) modelMap
       \<lparr>object_parent = Map.empty, object_children = (\<lambda>r. [])\<rparr>"

text \<open>
  The parent as the specification words it (the first entry of the parent list that
  resolves to a constructed model, else the scene root), and the parent that results
  from re-adding the model to every resolved parent in turn (the last such entry
  other than the model itself).
\<close>

definition firstResolvedParent :: "(int \<times> model) list \<Rightarrow> connection list \<Rightarrow> ref" where
  "firstResolvedParent modelMap parentConnections =
     (case filter (\<lambda>c. map_of modelMap (ID c) \<noteq> None) parentConnections of
        [] \<Rightarrow> SceneGraph
      | c # _ \<Rightarrow> Model (ID c))"

definition lastResolvedParent :: "(int \<times> model) list \<Rightarrow> int \<Rightarrow> connection list \<Rightarrow> ref" where
  "lastResolvedParent modelMap key parentConnections =
     (case rev (filter (\<lambda>c. map_of modelMap (ID c) \<noteq> None \<and> ID c \<noteq> key) parentConnections) of
        [] \<Rightarrow> SceneGraph
      | c # _ \<Rightarrow> Model (ID c))"

text \<open>
  The parent pointer of the model under \<open>key\<close> once the loop has run, and the
  consistency of a hierarchy: an object is in the children of exactly its parent, once.
\<close>

definition parentAfterAssembly ::
  "connectionMap \<Rightarrow> (int \<times> modelNode) list \<Rightarrow> (int \<times> model) list \<Rightarrow> int \<Rightarrow> error + ref option"
where
  "parentAfterAssembly conns modelNodes modelMap key =
     (case attachModels conns modelNodes modelMap of
        Inl err \<Rightarrow> Inl err
      | Inr h \<Rightarrow> Inr (object_parent h (Model key)))"

definition wellFormed :: "'r hierarchy \<Rightarrow> bool" where
  "wellFormed h =
     ((\<forall>x p. object_parent h x = Some p \<longleftrightarrow> x \<in> set (object_children h p))
      \<and> (\<forall>p. distinct (object_children h p)))"

subsection \<open>createCamera\<close>

record nodeAttribute =
  CameraProjectionType :: "property option"
  NearPlane :: "property option"
  FarPlane :: "property option"
  AspectWidth :: "property option"
  AspectHeight :: "property option"
  FieldOfView :: "property option"
  FocalLength :: "property option"

text \<open>
  The node \<^verbatim>\<open>createCamera\<close> returns. The aspect ratio \<^verbatim>\<open>width / height\<close> is kept as
  the two values, the orthographic frustum \<^verbatim>\<open>(-width / 2, width / 2, height / 2,
  -height / 2)\<close> likewise; then follow the near and far clipping planes.
\<close>

datatype camera =
    Object3D
  | PerspectiveCamera jsval jsval jsval real real "jsval option"
  | OrthographicCamera jsval jsval real real

text \<open>
  The callback of \<^verbatim>\<open>relationships.children.forEach\<close>: the last child found in
  \<^verbatim>\<open>fbxTree.Objects.NodeAttribute\<close> wins. Without that table the lookup raises.
\<close>

definition findAttribute ::
  "(int \<times> nodeAttribute) list option \<Rightarrow> nodeAttribute option \<Rightarrow> connection
     \<Rightarrow> error + nodeAttribute option"
where
  "findAttribute NodeAttribute cameraAttribute child =
     (case NodeAttribute of
        None \<Rightarrow> Inl (TypeError ''fbxTree.Objects.NodeAttribute[child.ID]'')
      | Some table \<Rightarrow>
          (case map_of table (ID child) of
             None \<Rightarrow> Inr cameraAttribute
           | Some attr \<Rightarrow> Inr (Some attr)))"

text \<open>
  \<^verbatim>\<open>createCamera\<close>. \<^verbatim>\<open>nearClippingPlane\<close> and \<^verbatim>\<open>farClippingPlane\<close> are declared
  \<^verbatim>\<open>const\<close>, and the assignments under \<^verbatim>\<open>NearPlane !== undefined\<close> and
  \<^verbatim>\<open>FarPlane !== undefined\<close> assign to them: JavaScript raises a TypeError
  (assignment to a constant variable) there.
  \<open>window\<close> is \<^verbatim>\<open>(window.innerWidth, window.innerHeight)\<close>.
\<close>

definition createCamera ::
  "(int \<times> nodeAttribute) list option \<Rightarrow> real \<times> real \<Rightarrow> relationships \<Rightarrow> error + camera"
where
  "createCamera NodeAttribute window rel =
     (case foldE (findAttribute NodeAttribute) (children rel) None of
        Inl err \<Rightarrow> Inl err
      | Inr None \<Rightarrow> Inr Object3D
      | Inr (Some cameraAttribute) \<Rightarrow>
          let type = (case CameraProjectionType cameraAttribute of
                        None \<Rightarrow> (0 :: nat)
                      | Some p \<Rightarrow> if pvalue p = JNumber 1 then 1 else 0);
              nearClippingPlane = (1 :: real)
          in if NearPlane cameraAttribute \<noteq> None
             then Inl (TypeError ''nearClippingPlane = cameraAttribute.NearPlane.value / 1000'')
             else
               let farClippingPlane = (1000 :: real)
               in if FarPlane cameraAttribute \<noteq> None
                  then Inl (TypeError ''farClippingPlane = cameraAttribute.FarPlane.value / 1000'')
                  else
                    let (width, height) =
                          (case (AspectWidth cameraAttribute, AspectHeight cameraAttribute) of
                             (Some w, Some h) \<Rightarrow> (pvalue w, pvalue h)
                           | _ \<Rightarrow> (JNumber (fst window), JNumber (snd window)));
                        fov = (case FieldOfView cameraAttribute of
                                 None \<Rightarrow> JNumber 45
                               | Some p \<Rightarrow> pvalue p);
                        focalLength = map_option pvalue (FocalLength cameraAttribute)
                    in if type = 0
                       then Inr (PerspectiveCamera fov width height nearClippingPlane
                                   farClippingPlane focalLength)
                       else Inr (OrthographicCamera width height nearClippingPlane
                                   farClippingPlane))"

subsection \<open>Example inputs\<close>

definition asciiEnv :: "bool \<Rightarrow> real \<Rightarrow> (string, unit, unit) env" where
  "asciiEnv ascii version =
     \<lparr>isFbxFormatBinary = (\<lambda>_. False), convertArrayBufferToString = (\<lambda>b. b),
      isFbxFormatASCII = (\<lambda>_. ascii), getFbxVersion = (\<lambda>_. Inr version),
      binaryParse = (\<lambda>_. Inr ()), textParse = (\<lambda>_. Inr ()), treeParse = (\<lambda>_. Inr ())\<rparr>"

definition newTexture :: texture where
  "newTexture = \<lparr>texture_ID = None, texture_name = JString [], wrapS = ClampToEdgeWrapping,
                 wrapT = ClampToEdgeWrapping, repeat = (JNumber 1, JNumber 1)\<rparr>"

definition exampleTextureNode :: textureNode where
  "exampleTextureNode =
     \<lparr>texture_id = 7, texture_attrName = JString ''wood'',
      WrapModeU = Some \<lparr>ptype = ''enum'', pvalue = JNumber 1\<rparr>,
      WrapModeV = Some \<lparr>ptype = ''enum'', pvalue = JNumber 0\<rparr>,
      Scaling = Some \<lparr>ptype = ''Vector'', pvalue = JArray [JNumber 2, JNumber 3, JNumber 1]\<rparr>\<rparr>"

definition exampleConnections :: connectionMap where
  "exampleConnections =
     [10 \<mapsto> \<lparr>parents = [],
                children = [\<lparr>ID = 20, relationship = None\<rparr>, \<lparr>ID = 1, relationship = None\<rparr>,
                            \<lparr>ID = 3, relationship = None\<rparr>, \<lparr>ID = 2, relationship = None\<rparr>]\<rparr>,
      1 \<mapsto> \<lparr>parents = [\<lparr>ID = 10, relationship = None\<rparr>], children = []\<rparr>,
      3 \<mapsto> \<lparr>parents = [\<lparr>ID = 10, relationship = None\<rparr>], children = []\<rparr>,
      20 \<mapsto> \<lparr>parents = [\<lparr>ID = 10, relationship = None\<rparr>], children = []\<rparr>]"

definition exampleMaterialNodes :: "(int \<times> materialNode) list" where
  "exampleMaterialNodes =
     [(1, \<lparr>material_id = 1, material_attrName = JString ''red'', ShadingModel = ShadingString ''Phong''\<rparr>),
      (2, \<lparr>material_id = 2, material_attrName = JString ''unused'', ShadingModel = ShadingString ''lambert''\<rparr>),
      (3, \<lparr>material_id = 3, material_attrName = JString ''blue'',
           ShadingModel = ShadingProperty \<lparr>ptype = ''KString'', pvalue = JString ''Lambert''\<rparr>\<rparr>)]"

definition exampleMaterialMap :: "int \<rightharpoonup> unit material" where
  "exampleMaterialMap =
     [1 \<mapsto> \<lparr>material_type = MeshPhongMaterial, parameters = (), material_name = JString ''red'',
             vertexColors = False, skinning = False\<rparr>,
      3 \<mapsto> \<lparr>material_type = MeshLambertMaterial, parameters = (), material_name = JString ''blue'',
             vertexColors = False, skinning = False\<rparr>]"

text \<open>
  A plain geometry 20, a skinned geometry 21 with skin weights, and a geometry 22 that
  carries deformer linkage and no skin weights.
\<close>

definition exampleGeometryMap :: "int \<rightharpoonup> geometry" where
  "exampleGeometryMap =
     [20 \<mapsto> \<lparr>attributes = [''position'', ''normal''], FBX_Deformer = False\<rparr>,
      21 \<mapsto> \<lparr>attributes = [''position'', ''skinIndex'', ''skinWeight''], FBX_Deformer = True\<rparr>,
      22 \<mapsto> \<lparr>attributes = [''position''], FBX_Deformer = True\<rparr>]"

definition identityMatrix :: jsval where
  "identityMatrix =
     JArray (map JNumber [1, 0, 0, 0, 0, 1, 0, 0, 0, 0, 1, 0, 0, 0, 0, 1])"

definition deformerOfType :: "string \<Rightarrow> deformerNode" where
  "deformerOfType t =
     \<lparr>deformer_id = JUndefined, deformer_attrName = JString [], deformer_attrType = JString t,
      TransformLink = None, Indexes = None, Weights = None, DeformPercent = JUndefined,
      FullWeights = None\<rparr>"

text \<open>
  A Skin deformer 100 with Clusters 101 and 102, a Cluster 103 without
  \<^verbatim>\<open>TransformLink\<close>, a Cluster 105 with \<^verbatim>\<open>Indexes\<close> and without \<^verbatim>\<open>Weights\<close>, a
  BlendShape deformer 200 with the channel 201, and a deformer 202 of another kind
  that carries \<^verbatim>\<open>FullWeights\<close>.
\<close>

definition exampleDeformerNodes :: "(int \<times> deformerNode) list" where
  "exampleDeformerNodes =
     [(100, deformerOfType ''Skin''),
      (101, (deformerOfType ''Cluster'')
              \<lparr>TransformLink := Some \<lparr>prop_a = identityMatrix\<rparr>,
               Indexes := Some \<lparr>prop_a = JArray [JNumber 0, JNumber 1]\<rparr>,
               Weights := Some \<lparr>prop_a = JArray [JNumber 1, JNumber 1]\<rparr>\<rparr>),
      (102, (deformerOfType ''Cluster'')\<lparr>TransformLink := Some \<lparr>prop_a = identityMatrix\<rparr>\<rparr>),
      (103, deformerOfType ''Cluster''),
      (105, (deformerOfType ''Cluster'')
              \<lparr>TransformLink := Some \<lparr>prop_a = identityMatrix\<rparr>,
               Indexes := Some \<lparr>prop_a = JArray [JNumber 0]\<rparr>\<rparr>),
      (200, deformerOfType ''BlendShape''),
      (201, (deformerOfType ''BlendShapeChannel'')
              \<lparr>DeformPercent := JNumber 0, FullWeights := Some \<lparr>prop_a = JArray [JNumber 100]\<rparr>\<rparr>),
      (202, (deformerOfType ''Other'')\<lparr>FullWeights := Some \<lparr>prop_a = JArray []\<rparr>\<rparr>)]"

definition edge :: "int \<Rightarrow> connection" where
  "edge k = \<lparr>ID = k, relationship = None\<rparr>"

text \<open>
  The Skin deformer 100 has its two clusters as children and no parent; the channel 201
  has the geometry 300 as its unlabelled child.
\<close>

definition exampleDeformerConnections :: connectionMap where
  "exampleDeformerConnections =
     [100 \<mapsto> \<lparr>parents = [], children = [edge 101, edge 102]\<rparr>,
      101 \<mapsto> \<lparr>parents = [edge 100], children = []\<rparr>,
      102 \<mapsto> \<lparr>parents = [edge 100], children = []\<rparr>,
      200 \<mapsto> \<lparr>parents = [edge 300], children = [edge 201, edge 202, edge 201]\<rparr>,
      201 \<mapsto> \<lparr>parents = [edge 200], children = [edge 300]\<rparr>,
      300 \<mapsto> \<lparr>parents = [], children = [edge 200, edge 201]\<rparr>]"

text \<open>The same connections with the geometry 300 as the parent of the Skin deformer 100.\<close>

definition exampleSkinConnections :: connectionMap where
  "exampleSkinConnections =
     exampleDeformerConnections(100 \<mapsto> \<lparr>parents = [edge 300], children = [edge 101, edge 102]\<rparr>)"

text \<open>Two skeletons that share the raw bone 101, and an empty heap.\<close>

definition exampleRawBone :: "int \<Rightarrow> rawBone" where
  "exampleRawBone k =
     \<lparr>rawBone_ID = k, indices = JArray [], weights = JArray [],
      transformLink = map JNumber [1, 0, 0, 0, 0, 1, 0, 0, 0, 0, 1, 0, 0, 0, 0, 1]\<rparr>"

definition exampleSkeletons :: "(int \<times> skeleton) list" where
  "exampleSkeletons =
     [(100, \<lparr>rawBones = [exampleRawBone 101, exampleRawBone 102], bones = [],
             skeleton_ID = Some 100, geometryID = Some 300\<rparr>),
      (110, \<lparr>rawBones = [exampleRawBone 104, exampleRawBone 101], bones = [],
             skeleton_ID = Some 110, geometryID = Some 310\<rparr>)]"

definition emptyHeap :: boneHeap where
  "emptyHeap =
     \<lparr>heap_bones = [],
      heap_tree = \<lparr>object_parent = Map.empty, object_children = (\<lambda>r. [])\<rparr>\<rparr>"

text \<open>
  Four models: model 1 is connected to the parents 2 and 3, model 2 to the object 0,
  which is no model, model 3 to nothing, and model 4 to model 2 and to itself.
\<close>

definition exampleModelMap :: "(int \<times> model) list" where
  "exampleModelMap =
     [(1, \<lparr>model_ID = 1, has_target = False\<rparr>),
      (2, \<lparr>model_ID = 2, has_target = False\<rparr>),
      (3, \<lparr>model_ID = 3, has_target = False\<rparr>),
      (4, \<lparr>model_ID = 4, has_target = False\<rparr>)]"

definition exampleModelNodes :: "(int \<times> modelNode) list" where
  "exampleModelNodes =
     [(1, \<lparr>LookAtProperty = False, Lcl_Translation = None\<rparr>),
      (2, \<lparr>LookAtProperty = False, Lcl_Translation = None\<rparr>),
      (3, \<lparr>LookAtProperty = False, Lcl_Translation = None\<rparr>),
      (4, \<lparr>LookAtProperty = False, Lcl_Translation = None\<rparr>)]"

definition exampleModelConnections :: connectionMap where
  "exampleModelConnections =
     [1 \<mapsto> \<lparr>parents = [edge 2, edge 3], children = []\<rparr>,
      2 \<mapsto> \<lparr>parents = [edge 0], children = [edge 1, edge 4]\<rparr>,
      3 \<mapsto> \<lparr>parents = [], children = [edge 1]\<rparr>,
      4 \<mapsto> \<lparr>parents = [edge 2, edge 4], children = [edge 4]\<rparr>]"

text \<open>A camera attribute that defines both clipping planes.\<close>

definition exampleCameraAttribute :: nodeAttribute where
  "exampleCameraAttribute =
     \<lparr>CameraProjectionType = None,
      NearPlane = Some \<lparr>ptype = ''double'', pvalue = JNumber 100\<rparr>,
      FarPlane = Some \<lparr>ptype = ''double'', pvalue = JNumber 100000\<rparr>,
      AspectWidth = None, AspectHeight = None,
      FieldOfView = Some \<lparr>ptype = ''FieldOfView'', pvalue = JNumber 40\<rparr>,
      FocalLength = None\<rparr>"

section \<open>Properties\<close>

subsection \<open>The connection graph\<close>

lemma addConnection_apply:
  "addConnection m (f, t, l) x =
     (if x = f \<or> x = t then
        Some \<lparr>parents = (case m x of None \<Rightarrow> [] | Some e \<Rightarrow> parents e) @
                         (if x = f then [\<lparr>ID = t, relationship = l\<rparr>] else []),
              children = (case m x of None \<Rightarrow> [] | Some e \<Rightarrow> children e) @
                         (if x = t then [\<lparr>ID = f, relationship = l\<rparr>] else [])\<rparr>
      else m x)"
  by (auto simp: addConnection_def setIfMissing_def pushParent_def pushChild_def Let_def
      split: option.splits)

lemma not_mentioned:
  assumes "\<not> mentioned x raw"
  shows "parentEdges x raw = []" and "childEdges x raw = []"
  using assms
  by (auto simp: mentioned_def parentEdges_def childEdges_def list_ex_iff filter_empty_conv)

lemma mentioned_Cons:
  "mentioned x ((f, t, l) # raw) \<longleftrightarrow> x = f \<or> x = t \<or> mentioned x raw"
  by (auto simp: mentioned_def)

lemma parentEdges_Cons:
  "parentEdges x ((f, t, l) # raw) =
     (if x = f then [\<lparr>ID = t, relationship = l\<rparr>] else []) @ parentEdges x raw"
  by (simp add: parentEdges_def)

lemma childEdges_Cons:
  "childEdges x ((f, t, l) # raw) =
     (if x = t then [\<lparr>ID = f, relationship = l\<rparr>] else []) @ childEdges x raw"
  by (simp add: childEdges_def)

lemma foldl_addConnection_apply:
  "foldl addConnection m raw x =
     (if mentioned x raw then
        Some \<lparr>parents = (case m x of None \<Rightarrow> [] | Some e \<Rightarrow> parents e) @ parentEdges x raw,
              children = (case m x of None \<Rightarrow> [] | Some e \<Rightarrow> children e) @ childEdges x raw\<rparr>
      else m x)"
proof (induction raw arbitrary: m)
  case Nil
  then show ?case by (simp add: mentioned_def)
next
  case (Cons c raw)
  obtain f t l where c: "c = (f, t, l)" by (cases c) auto
  show ?case
    unfolding foldl_Cons Cons.IH c
    by (auto simp: addConnection_apply mentioned_Cons parentEdges_Cons childEdges_Cons
        not_mentioned split: option.splits)
qed

text \<open>
  C1. Every raw connection (fromID, toID, label) that the builder processes leaves an
  entry for fromID whose parents contain (toID, label) and an entry for toID whose
  children contain (fromID, label); both entries exist, and each edge list is the list
  of the matching raw connections in input order.
\<close>

theorem parseConnections_edges:
  assumes "section_connections sec = Some raw"
    and "(fromID, toID, label) \<in> set raw"
  shows "\<exists>g ef et. parseConnections (Some sec) = Inr g
           \<and> g fromID = Some ef \<and> g toID = Some et
           \<and> \<lparr>ID = toID, relationship = label\<rparr> \<in> set (parents ef)
           \<and> \<lparr>ID = fromID, relationship = label\<rparr> \<in> set (children et)
           \<and> parents ef = parentEdges fromID raw \<and> children ef = childEdges fromID raw
           \<and> parents et = parentEdges toID raw \<and> children et = childEdges toID raw"
proof -
  let ?g = "foldl addConnection Map.empty raw"
  have g: "parseConnections (Some sec) = Inr ?g"
    using assms(1) by (simp add: parseConnections_def)
  have mf: "mentioned fromID raw" and mt: "mentioned toID raw"
    using assms(2) by (auto simp: mentioned_def list_ex_iff)
  have ef: "?g fromID = Some \<lparr>parents = parentEdges fromID raw, children = childEdges fromID raw\<rparr>"
    using mf by (simp add: foldl_addConnection_apply)
  have et: "?g toID = Some \<lparr>parents = parentEdges toID raw, children = childEdges toID raw\<rparr>"
    using mt by (simp add: foldl_addConnection_apply)
  have p: "\<lparr>ID = toID, relationship = label\<rparr> \<in> set (parentEdges fromID raw)"
    using assms(2) by (force simp: parentEdges_def)
  have c: "\<lparr>ID = fromID, relationship = label\<rparr> \<in> set (childEdges toID raw)"
    using assms(2) by (force simp: childEdges_def)
  show ?thesis using g ef et p c by simp
qed

theorem parseConnections_edges_witness:
  "\<exists>g ef et. parseConnections (Some \<lparr>section_connections = Some [(1, 2, None), (3, 2, Some ''DiffuseColor''), (1, 4, None)]\<rparr>) = Inr g
     \<and> g 1 = Some ef \<and> g 2 = Some et
     \<and> parents ef = [\<lparr>ID = 2, relationship = None\<rparr>, \<lparr>ID = 4, relationship = None\<rparr>]
     \<and> children et = [\<lparr>ID = 1, relationship = None\<rparr>, \<lparr>ID = 3, relationship = Some ''DiffuseColor''\<rparr>]"
  using parseConnections_edges
    [of "\<lparr>section_connections = Some [(1, 2, None), (3, 2, Some ''DiffuseColor''), (1, 4, None)]\<rparr>"
        "[(1, 2, None), (3, 2, Some ''DiffuseColor''), (1, 4, None)]" 1 2 None]
  by (auto simp: parentEdges_def childEdges_def)


subsection \<open>Format and version errors\<close>

text \<open>
  C7. A buffer that is not binary FBX, whose text is recognised as ASCII FBX and whose
  extracted version is below 7000, makes \<open>parse\<close> raise the unsupported-version error;
  a buffer that is neither binary nor recognised as ASCII FBX makes it raise the
  unknown-format error. In both cases the result is the error and no scene.
\<close>

theorem parse_rejects:
  "(\<not> isFbxFormatBinary e buf \<and> isFbxFormatASCII e (convertArrayBufferToString e buf)
      \<and> getFbxVersion e (convertArrayBufferToString e buf) = Inr version \<and> version < 7000
    \<longrightarrow> parse e buf =
          Inl (ErrorWith ''THREE.FBXLoader: FBX version not supported, FileVersion: '' version))
   \<and> (\<not> isFbxFormatBinary e buf \<and> \<not> isFbxFormatASCII e (convertArrayBufferToString e buf)
    \<longrightarrow> parse e buf = Inl (Error ''THREE.FBXLoader: Unknown format.''))"
  by (simp add: parse_def)

theorem parse_rejects_witness:
  "parse (asciiEnv True 6000) ''FBXVersion: 6000'' =
     Inl (ErrorWith ''THREE.FBXLoader: FBX version not supported, FileVersion: '' 6000)
   \<and> parse (asciiEnv False 7400) ''hello'' = Inl (Error ''THREE.FBXLoader: Unknown format.'')"
  using parse_rejects [of "asciiEnv True 6000" "''FBXVersion: 6000''" 6000]
    parse_rejects [of "asciiEnv False 7400" "''hello''" 7400]
  by (simp add: asciiEnv_def)

subsection \<open>Texture wrap modes\<close>

lemma parseTexture_returns:
  assumes "loadTexture textureNode images = Inr loaded"
    and "Scaling textureNode = None \<or> (\<exists>p. Scaling textureNode = Some p \<and> pvalue p \<noteq> JUndefined)"
  shows "\<exists>t. parseTexture loadTexture textureNode images = Inr t"
proof (cases "Scaling textureNode")
  case None
  then show ?thesis using assms(1) by (simp add: parseTexture_def Let_def)
next
  case (Some p)
  with assms(2) have "pvalue p \<noteq> JUndefined" by auto
  then have "\<exists>x y. index (pvalue p) 0 = Inr x \<and> index (pvalue p) 1 = Inr y"
    by (cases "pvalue p") auto
  then show ?thesis using assms(1) Some by (auto simp: parseTexture_def Let_def)
qed

text \<open>
  C8. \<open>parseTexture\<close> constructs a texture whenever \<open>loadTexture\<close> returns one and
  \<^verbatim>\<open>Scaling\<close>, if present, has a value. The wrap modes of the constructed texture
  depend on WrapModeU and WrapModeV alone: a missing field and the value 0 give repeat,
  the value 1 gives clamp; in particular WrapModeU = 1 with WrapModeV = 0 gives
  (clamp, repeat).
\<close>

theorem parseTexture_wrap:
  "(loadTexture textureNode images = Inr loaded
      \<and> (Scaling textureNode = None
           \<or> (\<exists>p. Scaling textureNode = Some p \<and> pvalue p \<noteq> JUndefined))
    \<longrightarrow> (\<exists>t. parseTexture loadTexture textureNode images = Inr t))
   \<and> (parseTexture loadTexture textureNode images = Inr t \<longrightarrow>
         wrapS t = (case WrapModeU textureNode of
                      None \<Rightarrow> RepeatWrapping
                    | Some p \<Rightarrow> if pvalue p = JNumber 0 then RepeatWrapping else ClampToEdgeWrapping)
       \<and> wrapT t = (case WrapModeV textureNode of
                      None \<Rightarrow> RepeatWrapping
                    | Some p \<Rightarrow> if pvalue p = JNumber 0 then RepeatWrapping else ClampToEdgeWrapping)
       \<and> (\<forall>p. WrapModeU textureNode = Some p \<and> pvalue p = JNumber 1 \<longrightarrow> wrapS t = ClampToEdgeWrapping)
       \<and> (\<forall>p. WrapModeV textureNode = Some p \<and> pvalue p = JNumber 1 \<longrightarrow> wrapT t = ClampToEdgeWrapping)
       \<and> (\<forall>p q. WrapModeU textureNode = Some p \<and> pvalue p = JNumber 1
              \<and> WrapModeV textureNode = Some q \<and> pvalue q = JNumber 0
            \<longrightarrow> (wrapS t, wrapT t) = (ClampToEdgeWrapping, RepeatWrapping)))"
proof (intro conjI impI)
  assume "loadTexture textureNode images = Inr loaded
      \<and> (Scaling textureNode = None
           \<or> (\<exists>p. Scaling textureNode = Some p \<and> pvalue p \<noteq> JUndefined))"
  then show "\<exists>t. parseTexture loadTexture textureNode images = Inr t"
    using parseTexture_returns [of loadTexture textureNode images loaded] by blast
next
  assume r: "parseTexture loadTexture textureNode images = Inr t"
  then show "wrapS t = (case WrapModeU textureNode of
                      None \<Rightarrow> RepeatWrapping
                    | Some p \<Rightarrow> if pvalue p = JNumber 0 then RepeatWrapping else ClampToEdgeWrapping)"
    by (auto simp: parseTexture_def Let_def split: sum.splits option.splits)
  from r show "wrapT t = (case WrapModeV textureNode of
                      None \<Rightarrow> RepeatWrapping
                    | Some p \<Rightarrow> if pvalue p = JNumber 0 then RepeatWrapping else ClampToEdgeWrapping)"
    by (auto simp: parseTexture_def Let_def split: sum.splits option.splits)
  from r show "\<forall>p. WrapModeU textureNode = Some p \<and> pvalue p = JNumber 1 \<longrightarrow> wrapS t = ClampToEdgeWrapping"
    by (auto simp: parseTexture_def Let_def split: sum.splits option.splits)
  from r show "\<forall>p. WrapModeV textureNode = Some p \<and> pvalue p = JNumber 1 \<longrightarrow> wrapT t = ClampToEdgeWrapping"
    by (auto simp: parseTexture_def Let_def split: sum.splits option.splits)
  from r show "\<forall>p q. WrapModeU textureNode = Some p \<and> pvalue p = JNumber 1
              \<and> WrapModeV textureNode = Some q \<and> pvalue q = JNumber 0
            \<longrightarrow> (wrapS t, wrapT t) = (ClampToEdgeWrapping, RepeatWrapping)"
    by (auto simp: parseTexture_def Let_def split: sum.splits option.splits)
qed

theorem parseTexture_wrap_witness:
  "parseTexture (\<lambda>n i. Inr newTexture) exampleTextureNode () =
     Inr \<lparr>texture_ID = Some 7, texture_name = JString ''wood'', wrapS = ClampToEdgeWrapping,
          wrapT = RepeatWrapping, repeat = (JNumber 2, JNumber 3)\<rparr>
   \<and> (\<exists>t. parseTexture (\<lambda>n i. Inr newTexture) exampleTextureNode () = Inr t
          \<and> (wrapS t, wrapT t) = (ClampToEdgeWrapping, RepeatWrapping))"
proof -
  let ?t = "\<lparr>texture_ID = Some 7, texture_name = JString ''wood'', wrapS = ClampToEdgeWrapping,
          wrapT = RepeatWrapping, repeat = (JNumber 2, JNumber 3)\<rparr>"
  have r: "parseTexture (\<lambda>n i. Inr newTexture) exampleTextureNode () = Inr ?t"
    by (simp add: parseTexture_def exampleTextureNode_def newTexture_def)
  have u: "WrapModeU exampleTextureNode = Some \<lparr>ptype = ''enum'', pvalue = JNumber 1\<rparr>"
    and v: "WrapModeV exampleTextureNode = Some \<lparr>ptype = ''enum'', pvalue = JNumber 0\<rparr>"
    by (simp_all add: exampleTextureNode_def)
  from parseTexture_wrap [of "\<lambda>n i. Inr newTexture" exampleTextureNode "()" newTexture ?t] r u v
  have "(wrapS ?t, wrapT ?t) = (ClampToEdgeWrapping, RepeatWrapping)" by simp
  with r show ?thesis by blast
qed

subsection \<open>Orphaned materials\<close>

lemma parseMaterialsLoop_other:
  assumes "parseMaterialsLoop pp conns tm nodes acc = Inr mm"
    and "k \<notin> fst ` set nodes"
  shows "mm k = acc k"
  using assms
proof (induction nodes arbitrary: acc)
  case Nil
  then show ?case by simp
next
  case (Cons kn nodes)
  obtain k' n where kn: "kn = (k', n)" by (cases kn) auto
  from Cons.prems(2) kn have ne: "k \<noteq> k'" and notin: "k \<notin> fst ` set nodes" by auto
  show ?case
  proof (cases "parseMaterial pp conns n tm")
    case (Inl e)
    with Cons.prems(1) kn show ?thesis by simp
  next
    case (Inr r)
    show ?thesis
    proof (cases r)
      case None
      with Inr Cons.prems(1) kn have "parseMaterialsLoop pp conns tm nodes acc = Inr mm" by simp
      from Cons.IH [OF this notin] show ?thesis .
    next
      case (Some m)
      with Inr Cons.prems(1) kn
      have "parseMaterialsLoop pp conns tm nodes (acc(k' \<mapsto> m)) = Inr mm" by simp
      from Cons.IH [OF this notin] ne show ?thesis by simp
    qed
  qed
qed

lemma parseMaterialsLoop_skipped:
  assumes "parseMaterialsLoop pp conns tm nodes acc = Inr mm"
    and "distinct (map fst nodes)"
    and "(k, node) \<in> set nodes"
    and "parseMaterial pp conns node tm = Inr None"
  shows "mm k = acc k"
  using assms
proof (induction nodes arbitrary: acc)
  case Nil
  then show ?case by simp
next
  case (Cons kn nodes)
  obtain k' n where kn: "kn = (k', n)" by (cases kn) auto
  from Cons.prems(2) kn have k': "k' \<notin> fst ` set nodes" and d: "distinct (map fst nodes)"
    by auto
  show ?case
  proof (cases "(k, node) = (k', n)")
    case True
    with Cons.prems(1,4) kn have "parseMaterialsLoop pp conns tm nodes acc = Inr mm" by simp
    from parseMaterialsLoop_other [OF this] k' True show ?thesis by simp
  next
    case False
    with Cons.prems(3) kn have mem: "(k, node) \<in> set nodes" by auto
    then have ne: "k \<noteq> k'" using k' by force
    show ?thesis
    proof (cases "parseMaterial pp conns n tm")
      case (Inl e)
      with Cons.prems(1) kn show ?thesis by simp
    next
      case (Inr r)
      show ?thesis
      proof (cases r)
        case None
        with Inr Cons.prems(1) kn have "parseMaterialsLoop pp conns tm nodes acc = Inr mm" by simp
        from Cons.IH [OF this d mem Cons.prems(4)] show ?thesis .
      next
        case (Some m)
        with Inr Cons.prems(1) kn
        have "parseMaterialsLoop pp conns tm nodes (acc(k' \<mapsto> m)) = Inr mm" by simp
        from Cons.IH [OF this d mem Cons.prems(4)] ne show ?thesis by simp
      qed
    qed
  qed
qed

text \<open>
  C5. A Material node whose object ID has no entry in the connection graph is mapped
  to nothing by \<open>parseMaterial\<close>, and its key is absent from every material registry
  that \<open>parseMaterials\<close> returns. (The nodes are the properties of a JavaScript
  object, so their keys are distinct.)
\<close>

theorem parseMaterials_orphan:
  assumes "(nodeID, node) \<in> set materialNodes"
    and "distinct (map fst materialNodes)"
    and "connections (material_id node) = None"
  shows "parseMaterial parseParameters connections node textureMap = Inr None
       \<and> (\<forall>materialMap.
            parseMaterials parseParameters connections (Some materialNodes) textureMap = Inr materialMap
            \<longrightarrow> materialMap nodeID = None)"
proof -
  have skip: "parseMaterial parseParameters connections node textureMap = Inr None"
    using assms(3) by (simp add: parseMaterial_def Let_def)
  have "materialMap nodeID = None"
    if "parseMaterials parseParameters connections (Some materialNodes) textureMap = Inr materialMap"
    for materialMap
  proof -
    from that
    have "parseMaterialsLoop parseParameters connections textureMap materialNodes Map.empty
            = Inr materialMap"
      by (simp add: parseMaterials_def)
    from parseMaterialsLoop_skipped [OF this assms(2) assms(1) skip] show ?thesis by simp
  qed
  with skip show ?thesis by blast
qed

theorem parseMaterials_orphan_witness:
  "(case parseMaterials (\<lambda>n t i. Inr ()) exampleConnections (Some exampleMaterialNodes) () of
      Inl err \<Rightarrow> False
    | Inr materialMap \<Rightarrow>
        materialMap 2 = None
        \<and> map_option material_type (materialMap 1) = Some MeshPhongMaterial
        \<and> map_option material_type (materialMap 3) = Some MeshLambertMaterial)"
proof -
  let ?n2 = "\<lparr>material_id = 2, material_attrName = JString ''unused'',
               ShadingModel = ShadingString ''lambert''\<rparr>"
  have mem: "(2, ?n2) \<in> set exampleMaterialNodes"
    by (simp add: exampleMaterialNodes_def)
  have d: "distinct (map fst exampleMaterialNodes)"
    by (simp add: exampleMaterialNodes_def)
  have orphan: "exampleConnections (material_id ?n2) = None"
    by (simp add: exampleConnections_def)
  obtain mm where mm:
    "parseMaterials (\<lambda>n t i. Inr ()) exampleConnections (Some exampleMaterialNodes) () = Inr mm"
    and r: "map_option material_type (mm 1) = Some MeshPhongMaterial"
      "map_option material_type (mm 3) = Some MeshLambertMaterial"
    by (simp add: parseMaterials_def exampleMaterialNodes_def exampleConnections_def
        parseMaterial_def unwrapShadingModel_def lowerChar_def)
  have "mm 2 = None"
    using parseMaterials_orphan [of 2 ?n2 exampleMaterialNodes exampleConnections
        "\<lambda>n t i. Inr ()" "()"] mem d orphan mm
    by blast
  with mm r show ?thesis by simp
qed

subsection \<open>Materials of a mesh\<close>

lemma createMesh_geometry_found:
  "map_option snd
     (foldl (\<lambda>geo child. case geometryMap (ID child) of Some g \<Rightarrow> Some (ID child, g) | None \<Rightarrow> geo)
        None cs)
   = (case rev (filter (\<lambda>child. geometryMap (ID child) \<noteq> None) cs) of
        [] \<Rightarrow> None
      | child # _ \<Rightarrow> geometryMap (ID child))"
proof (induction cs rule: rev_induct)
  case Nil
  then show ?case by simp
next
  case (snoc c cs)
  then show ?case by (cases "geometryMap (ID c)") simp_all
qed

lemma createMesh_returns:
  "(\<exists>r. createMesh rel geometryMap materialMap = Inr r)
   \<longleftrightarrow> (\<exists>g. lastGeometry rel geometryMap = Some g
           \<and> (FBX_Deformer g \<longrightarrow> ''skinWeight'' \<in> set (attributes g)))"
proof -
  let ?g = "foldl (\<lambda>geo child. case geometryMap (ID child) of Some g \<Rightarrow> Some (ID child, g) | None \<Rightarrow> geo)
              None (children rel)"
  have last: "lastGeometry rel geometryMap = map_option snd ?g"
    by (simp add: lastGeometry_def createMesh_geometry_found)
  show ?thesis
  proof (cases ?g)
    case None
    then show ?thesis unfolding last by (simp add: createMesh_def)
  next
    case (Some a)
    obtain gid g where a: "a = (gid, g)" by (cases a) auto
    show ?thesis unfolding last using Some a by (simp add: createMesh_def Let_def)
  qed
qed

text \<open>
  C6. \<open>createMesh\<close> constructs a surface node exactly when one of the children is a
  geometry and the last such geometry, if it carries deformer linkage, has skin
  weights. The material of the constructed node is decided by the children whose ID
  is in the material registry, taken in connection order: exactly two give the
  two-element list in that order (more than one give the list of all of them), none
  gives the default gray material, exactly one gives that material itself and not a
  list.
\<close>

theorem createMesh_material:
  assumes "materials = map ID (filter (\<lambda>child. materialMap (ID child) \<noteq> None) (children rel))"
  shows "((\<exists>r. createMesh rel geometryMap materialMap = Inr r)
            \<longleftrightarrow> (\<exists>g. lastGeometry rel geometryMap = Some g
                    \<and> (FBX_Deformer g \<longrightarrow> ''skinWeight'' \<in> set (attributes g))))
       \<and> (createMesh rel geometryMap materialMap = Inr (model, materialMap') \<longrightarrow>
             (\<forall>a b. materials = [a, b] \<longrightarrow> mesh_material model = MaterialList [a, b])
           \<and> (1 < length materials \<longrightarrow> mesh_material model = MaterialList materials)
           \<and> (materials = [] \<longrightarrow> (\<exists>v s. mesh_material model = DefaultPhong 0xcccccc v s))
           \<and> (\<forall>a. materials = [a] \<longrightarrow> mesh_material model = MaterialRef a))"
proof -
  have returns: "(\<exists>r. createMesh rel geometryMap materialMap = Inr r)
            \<longleftrightarrow> (\<exists>g. lastGeometry rel geometryMap = Some g
                    \<and> (FBX_Deformer g \<longrightarrow> ''skinWeight'' \<in> set (attributes g)))"
    by (rule createMesh_returns)
  have material: "(\<forall>a b. materials = [a, b] \<longrightarrow> mesh_material model = MaterialList [a, b])
           \<and> (1 < length materials \<longrightarrow> mesh_material model = MaterialList materials)
           \<and> (materials = [] \<longrightarrow> (\<exists>v s. mesh_material model = DefaultPhong 0xcccccc v s))
           \<and> (\<forall>a. materials = [a] \<longrightarrow> mesh_material model = MaterialRef a)"
    if r: "createMesh rel geometryMap materialMap = Inr (model, materialMap')"
  proof -
    from r assms obtain v s where m: "mesh_material model =
        (if 1 < length materials then MaterialList materials
         else (case materials of
                 m # _ \<Rightarrow> MaterialRef m
               | [] \<Rightarrow> DefaultPhong 0xcccccc v s))"
      by (fastforce simp: createMesh_def Let_def split: option.splits if_splits)
    show ?thesis unfolding m by auto
  qed
  from returns material show ?thesis by blast
qed

theorem createMesh_material_witness:
  "(case createMesh \<lparr>parents = [], children = [edge 20, edge 1, edge 3, edge 2]\<rparr>
           exampleGeometryMap exampleMaterialMap of
      Inl err \<Rightarrow> False
    | Inr (model, materialMap') \<Rightarrow> mesh_material model = MaterialList [1, 3])
   \<and> (case createMesh \<lparr>parents = [], children = [edge 1, edge 21]\<rparr>
           exampleGeometryMap exampleMaterialMap of
      Inl err \<Rightarrow> False
    | Inr (model, materialMap') \<Rightarrow> mesh_material model = MaterialRef 1)
   \<and> createMesh \<lparr>parents = [], children = [edge 1, edge 22]\<rparr> exampleGeometryMap exampleMaterialMap
       = Inl (TypeError ''skinWeight.count'')"
proof -
  let ?rel = "\<lparr>parents = [], children = [edge 20, edge 1, edge 3, edge 2]\<rparr>"
  let ?skinned = "\<lparr>parents = [], children = [edge 1, edge 21]\<rparr>"
  have ms: "[1, 3] = map ID (filter (\<lambda>child. exampleMaterialMap (ID child) \<noteq> None) (children ?rel))"
    by (simp add: exampleMaterialMap_def edge_def)
  have ms': "[1] = map ID (filter (\<lambda>child. exampleMaterialMap (ID child) \<noteq> None) (children ?skinned))"
    by (simp add: exampleMaterialMap_def edge_def)
  have geo: "\<exists>g. lastGeometry ?rel exampleGeometryMap = Some g
               \<and> (FBX_Deformer g \<longrightarrow> ''skinWeight'' \<in> set (attributes g))"
    by (simp add: lastGeometry_def exampleGeometryMap_def edge_def)
  have geo': "\<exists>g. lastGeometry ?skinned exampleGeometryMap = Some g
               \<and> (FBX_Deformer g \<longrightarrow> ''skinWeight'' \<in> set (attributes g))"
    by (simp add: lastGeometry_def exampleGeometryMap_def edge_def)
  from createMesh_material [OF ms, of exampleGeometryMap] geo obtain model mm' where
    r: "createMesh ?rel exampleGeometryMap exampleMaterialMap = Inr (model, mm')"
    by (metis surj_pair)
  from createMesh_material [OF ms, of exampleGeometryMap model mm'] r
  have m: "mesh_material model = MaterialList [1, 3]" by simp
  from createMesh_material [OF ms', of exampleGeometryMap] geo' obtain model' mm'' where
    r': "createMesh ?skinned exampleGeometryMap exampleMaterialMap = Inr (model', mm'')"
    by (metis surj_pair)
  from createMesh_material [OF ms', of exampleGeometryMap model' mm''] r'
  have m': "mesh_material model' = MaterialRef 1" by simp
  have raises: "createMesh \<lparr>parents = [], children = [edge 1, edge 22]\<rparr> exampleGeometryMap
                  exampleMaterialMap = Inl (TypeError ''skinWeight.count'')"
    by (simp add: createMesh_def exampleGeometryMap_def edge_def Let_def)
  from r m r' m' raises show ?thesis by simp
qed

subsection \<open>Deformers\<close>

lemma foldE_fails:
  assumes "x \<in> set xs" and "\<And>s. \<exists>e. f s x = Inl e"
  shows "\<exists>e. foldE f xs s = Inl e"
  using assms(1)
proof (induction xs arbitrary: s)
  case Nil
  then show ?case by simp
next
  case (Cons y ys)
  show ?case
  proof (cases "f s y")
    case (Inl e)
    then show ?thesis by simp
  next
    case (Inr s')
    show ?thesis
    proof (cases "x = y")
      case True
      with assms(2) [of s] Inr show ?thesis by simp
    next
      case False
      with Cons.prems have "x \<in> set ys" by simp
      from Cons.IH [OF this, of s'] Inr show ?thesis by simp
    qed
  qed
qed

lemma parseDeformer_no_parent:
  assumes "deformer_attrType node = JString ''Skin''"
    and "conns nodeID = Some rel"
    and "parents rel = []"
  shows "parseDeformer conns nodes acc (nodeID, node) =
           (case parseSkeleton (Some rel) nodes of
              Inl err \<Rightarrow> Inl err
            | Inr sk \<Rightarrow> Inl (TypeError ''relationships.parents[0].ID''))"
  using assms by (simp add: parseDeformer_def Let_def split: sum.splits)

lemma pushBone_readable:
  assumes "readableBone nodes c"
  shows "\<exists>bs. pushBone nodes acc c = Inr (acc @ bs)
           \<and> map rawBone_ID bs = (if isCluster nodes c then [ID c] else [])"
proof -
  from assms obtain n where n: "map_of nodes (ID c) = Some n"
    by (auto simp: readableBone_def split: option.splits)
  show ?thesis
  proof (cases "deformer_attrType n = JString ''Cluster''")
    case False
    with n show ?thesis by (simp add: pushBone_def parseBone_def isCluster_def)
  next
    case True
    with assms n obtain link where l: "TransformLink n = Some link" "prop_a link \<noteq> JUndefined"
      "Indexes n = None \<or> Weights n \<noteq> None"
      by (auto simp: readableBone_def split: option.splits)
    with n True show ?thesis
      by (auto simp: pushBone_def parseBone_def isCluster_def fromArray_def Let_def
          split: option.splits)
  qed
qed

lemma foldE_pushBone:
  assumes "\<forall>c \<in> set cs. readableBone nodes c"
  shows "\<exists>bs. foldE (pushBone nodes) cs acc = Inr (acc @ bs)
           \<and> map rawBone_ID bs = map ID (filter (isCluster nodes) cs)"
  using assms
proof (induction cs arbitrary: acc)
  case Nil
  then show ?case by simp
next
  case (Cons c cs)
  from Cons.prems have c: "readableBone nodes c" and cs: "\<forall>c \<in> set cs. readableBone nodes c"
    by auto
  from pushBone_readable [OF c, of acc] obtain b1 where
    b1: "pushBone nodes acc c = Inr (acc @ b1)"
      "map rawBone_ID b1 = (if isCluster nodes c then [ID c] else [])" by blast
  from Cons.IH [OF cs, of "acc @ b1"] obtain b2 where
    b2: "foldE (pushBone nodes) cs (acc @ b1) = Inr ((acc @ b1) @ b2)"
      "map rawBone_ID b2 = map ID (filter (isCluster nodes) cs)" by blast
  have "foldE (pushBone nodes) (c # cs) acc = Inr (acc @ (b1 @ b2))"
    using b1(1) b2(1) by simp
  moreover have "map rawBone_ID (b1 @ b2) = map ID (filter (isCluster nodes) (c # cs))"
    using b1(2) b2(2) by simp
  ultimately show ?case by blast
qed

lemma parseSkeleton_readable:
  assumes "\<forall>c \<in> set (children rel). readableBone nodes c"
  shows "\<exists>sk. parseSkeleton (Some rel) nodes = Inr sk
           \<and> map rawBone_ID (rawBones sk) = map ID (filter (isCluster nodes) (children rel))
           \<and> length (rawBones sk) = length (filter (isCluster nodes) (children rel))
           \<and> bones sk = []"
proof -
  from foldE_pushBone [OF assms, of "[]"] obtain bs where
    bs: "foldE (pushBone nodes) (children rel) [] = Inr bs"
      "map rawBone_ID bs = map ID (filter (isCluster nodes) (children rel))" by auto
  from bs(2) have "length bs = length (filter (isCluster nodes) (children rel))"
    by (metis length_map)
  with bs show ?thesis by (simp add: parseSkeleton_def)
qed


text \<open>
  C10. A Skin deformer whose entry in the connection graph has an empty parents list
  makes the deformer pass fail: \<open>parseDeformers\<close> returns an error, and when
  \<open>parseSkeleton\<close> succeeds for that node the error is the TypeError of the
  unguarded \<^verbatim>\<open>relationships.parents[0].ID\<close>; no skeleton is recorded.
\<close>

theorem parseDeformers_no_parent:
  assumes "(nodeID, node) \<in> set DeformerNodes"
    and "deformer_attrType node = JString ''Skin''"
    and "conns nodeID = Some rel"
    and "parents rel = []"
  shows "(\<exists>e. parseDeformers conns (Some DeformerNodes) = Inl e)
       \<and> (\<forall>acc sk. parseSkeleton (Some rel) DeformerNodes = Inr sk
            \<longrightarrow> parseDeformer conns DeformerNodes acc (nodeID, node)
                  = Inl (TypeError ''relationships.parents[0].ID''))"
proof -
  have step: "\<exists>e. parseDeformer conns DeformerNodes acc (nodeID, node) = Inl e" for acc
    using assms(2-4) by (simp add: parseDeformer_no_parent split: sum.splits)
  have "\<exists>e. foldE (parseDeformer conns DeformerNodes) DeformerNodes s = Inl e" for s
    by (rule foldE_fails [OF assms(1)]) (rule step)
  then have "\<exists>e. parseDeformers conns (Some DeformerNodes) = Inl e"
    by (simp add: parseDeformers_def)
  then show ?thesis
    using assms(2-4) by (simp add: parseDeformer_no_parent)
qed

theorem parseDeformers_no_parent_witness:
  "(\<exists>e. parseDeformers exampleDeformerConnections (Some exampleDeformerNodes) = Inl e)
   \<and> parseDeformer exampleDeformerConnections exampleDeformerNodes
        \<lparr>deformers_skeletons = [], deformers_morphTargets = []\<rparr> (100, deformerOfType ''Skin'')
      = Inl (TypeError ''relationships.parents[0].ID'')"
proof -
  let ?rel = "\<lparr>parents = [], children = [edge 101, edge 102]\<rparr>"
  have mem: "(100, deformerOfType ''Skin'') \<in> set exampleDeformerNodes"
    by (simp add: exampleDeformerNodes_def)
  have skin: "deformer_attrType (deformerOfType ''Skin'') = JString ''Skin''"
    by (simp add: deformerOfType_def)
  have rel: "exampleDeformerConnections 100 = Some ?rel"
    by (simp add: exampleDeformerConnections_def)
  have np: "parents ?rel = []" by simp
  have readable: "\<forall>c \<in> set (children ?rel). readableBone exampleDeformerNodes c"
    by (simp add: readableBone_def exampleDeformerNodes_def edge_def deformerOfType_def
        identityMatrix_def)
  from parseSkeleton_readable [OF readable]
  obtain sk where sk: "parseSkeleton (Some ?rel) exampleDeformerNodes = Inr sk" by blast
  from parseDeformers_no_parent [of 100 "deformerOfType ''Skin''" exampleDeformerNodes
      exampleDeformerConnections ?rel] mem skin rel np sk
  show ?thesis by blast
qed

lemma morphTargetsLoop_no_list:
  assumes "child \<in> set cs"
    and "map_of nodes (ID child) = Some node"
    and "deformer_attrType node \<noteq> JString ''BlendShapeChannel''"
  shows "morphTargetsLoop conns nodes cs acc \<noteq> Inr (Some targets)"
  using assms(1)
proof (induction cs arbitrary: acc)
  case Nil
  then show ?case by simp
next
  case (Cons c cs)
  show ?case
  proof (cases "c = child")
    case True
    with assms(2,3) show ?thesis by (simp split: option.splits)
  next
    case False
    with Cons.prems have "child \<in> set cs" by simp
    from Cons.IH [OF this] show ?thesis
      by (simp split: option.splits list.splits)
  qed
qed

lemma morphTargetsLoop_prefix:
  assumes "\<forall>c \<in> set pre. readableChannel conns nodes c"
  shows "\<exists>acc'. morphTargetsLoop conns nodes (pre @ rest) acc = morphTargetsLoop conns nodes rest acc'"
  using assms
proof (induction pre arbitrary: acc)
  case Nil
  then show ?case by auto
next
  case (Cons c pre)
  from Cons.prems have c: "readableChannel conns nodes c"
    and pre: "\<forall>c \<in> set pre. readableChannel conns nodes c" by auto
  from c obtain n fw rel x xs where
    "map_of nodes (ID c) = Some n" "FullWeights n = Some fw"
    "deformer_attrType n = JString ''BlendShapeChannel''" "conns (ID c) = Some rel"
    "filter (\<lambda>c. relationship c = None) (children rel) = x # xs"
    by (auto simp: readableChannel_def neq_Nil_conv split: option.splits)
  then show ?case using Cons.IH [OF pre] by simp
qed

text \<open>
  What \<open>parseMorphTargets\<close> does at a child that resolves to a deformer node of another
  attrType than BlendShapeChannel: it never returns a list; after readable channels it
  reaches the bare \<^verbatim>\<open>return\<close> only if the node carries \<^verbatim>\<open>FullWeights\<close>, and raises at
  \<^verbatim>\<open>morphTargetNode.FullWeights.a\<close> if not.
\<close>

lemma parseMorphTargets_not_channel:
  assumes "children rel = pre @ child # post"
    and "map_of deformerNodes (ID child) = Some node"
    and "deformer_attrType node \<noteq> JString ''BlendShapeChannel''"
  shows "(\<forall>targets. parseMorphTargets conns (Some rel) deformerNodes \<noteq> Inr (Some targets))
       \<and> ((\<forall>c \<in> set pre. readableChannel conns deformerNodes c) \<longrightarrow>
            parseMorphTargets conns (Some rel) deformerNodes =
              (case FullWeights node of
                 None \<Rightarrow> Inl (TypeError ''morphTargetNode.FullWeights.a'')
               | Some fw \<Rightarrow> Inr None))"
proof -
  have mem: "child \<in> set (children rel)" using assms(1) by simp
  have a: "parseMorphTargets conns (Some rel) deformerNodes \<noteq> Inr (Some targets)" for targets
    using morphTargetsLoop_no_list [of child "children rel" deformerNodes node conns "[]" targets]
      mem assms(2,3)
    by (simp add: parseMorphTargets_def)
  have b: "parseMorphTargets conns (Some rel) deformerNodes =
              (case FullWeights node of
                 None \<Rightarrow> Inl (TypeError ''morphTargetNode.FullWeights.a'')
               | Some fw \<Rightarrow> Inr None)"
    if "\<forall>c \<in> set pre. readableChannel conns deformerNodes c"
  proof -
    from morphTargetsLoop_prefix [OF that, of "child # post" "[]"]
    obtain acc' where "morphTargetsLoop conns deformerNodes (pre @ child # post) [] =
        morphTargetsLoop conns deformerNodes (child # post) acc'" by blast
    then show ?thesis using assms
      by (simp add: parseMorphTargets_def split: option.splits)
  qed
  from a b show ?thesis by blast
qed

lemma parseMorphTargets_undefined_example:
  "parseMorphTargets exampleDeformerConnections
     (Some \<lparr>parents = [edge 300], children = [edge 201, edge 202, edge 201]\<rparr>)
     exampleDeformerNodes = Inr None"
proof -
  let ?rel = "\<lparr>parents = [edge 300], children = [edge 201, edge 202, edge 201]\<rparr>"
  let ?node = "(deformerOfType ''Other'')\<lparr>FullWeights := Some \<lparr>prop_a = JArray []\<rparr>\<rparr>"
  have split: "children ?rel = [edge 201] @ edge 202 # [edge 201]" by simp
  have node: "map_of exampleDeformerNodes (ID (edge 202)) = Some ?node"
    by (simp add: exampleDeformerNodes_def edge_def)
  have other: "deformer_attrType ?node \<noteq> JString ''BlendShapeChannel''"
    by (simp add: deformerOfType_def)
  have pre: "\<forall>c \<in> set [edge 201]. readableChannel exampleDeformerConnections exampleDeformerNodes c"
    by (simp add: readableChannel_def exampleDeformerNodes_def exampleDeformerConnections_def
        edge_def deformerOfType_def)
  have fw: "FullWeights ?node = Some \<lparr>prop_a = JArray []\<rparr>" by simp
  from parseMorphTargets_not_channel [of ?rel "[edge 201]" "edge 202" "[edge 201]"
      exampleDeformerNodes ?node exampleDeformerConnections] split node other pre fw
  show ?thesis by simp
qed

text \<open>
  C9 says that a child of a BlendShape deformer that resolves to a deformer node whose
  attrType is not BlendShapeChannel makes \<open>parseMorphTargets\<close> return \<^verbatim>\<open>undefined\<close> for
  the whole deformer. The code tests attrType for that bare \<^verbatim>\<open>return\<close>, but only after
  the object literal has read \<^verbatim>\<open>morphTargetNode.FullWeights.a\<close>: below, after the
  readable channel 201, the child 102 is a Cluster, which has no \<^verbatim>\<open>FullWeights\<close>, and
  the function raises instead of returning \<^verbatim>\<open>undefined\<close>.
\<close>

theorem parseMorphTargets_raises:
  "parseMorphTargets exampleDeformerConnections
     (Some \<lparr>parents = [edge 300], children = [edge 201, edge 102]\<rparr>) exampleDeformerNodes
     = Inl (TypeError ''morphTargetNode.FullWeights.a'')
   \<and> parseMorphTargets exampleDeformerConnections
     (Some \<lparr>parents = [edge 300], children = [edge 201, edge 102]\<rparr>) exampleDeformerNodes
     \<noteq> Inr None
   \<and> map_option deformer_attrType (map_of exampleDeformerNodes 102) = Some (JString ''Cluster'')"
  by (simp add: parseMorphTargets_def exampleDeformerNodes_def exampleDeformerConnections_def
      edge_def deformerOfType_def)

subsection \<open>Raw skeletons of Skin deformers\<close>

lemma map_of_assign:
  "map_of (assign k v obj) k' = (if k' = k then Some v else map_of obj k')"
proof (cases "map_of obj k")
  case None
  then show ?thesis by (auto simp: assign_def map_add_def split: option.splits)
next
  case (Some a)
  have "map_of (map (\<lambda>(x, y). if x = k then (x, v) else (x, y)) xs) k'
          = (if k' = k then map_option (\<lambda>_. v) (map_of xs k) else map_of xs k')" for xs
    by (induction xs) auto
  with Some show ?thesis by (simp add: assign_def)
qed

lemma pushBone_result:
  assumes "pushBone nodes acc c = Inr acc'"
  shows "\<exists>bs. acc' = acc @ bs \<and> map rawBone_ID bs = (if isCluster nodes c then [ID c] else [])"
  using assms
  by (auto simp: pushBone_def parseBone_def isCluster_def Let_def
      split: option.splits sum.splits if_splits)

lemma foldE_pushBone_result:
  assumes "foldE (pushBone nodes) cs acc = Inr acc'"
  shows "\<exists>bs. acc' = acc @ bs \<and> map rawBone_ID bs = map ID (filter (isCluster nodes) cs)"
  using assms
proof (induction cs arbitrary: acc)
  case Nil
  then show ?case by simp
next
  case (Cons c cs)
  from Cons.prems obtain a1 where a1: "pushBone nodes acc c = Inr a1"
    and rest: "foldE (pushBone nodes) cs a1 = Inr acc'"
    by (auto split: sum.splits)
  from pushBone_result [OF a1] obtain b1 where
    b1: "a1 = acc @ b1" "map rawBone_ID b1 = (if isCluster nodes c then [ID c] else [])" by blast
  from Cons.IH [OF rest] obtain b2 where
    b2: "acc' = a1 @ b2" "map rawBone_ID b2 = map ID (filter (isCluster nodes) cs)" by blast
  have "acc' = acc @ (b1 @ b2)" using b1(1) b2(1) by simp
  moreover have "map rawBone_ID (b1 @ b2) = map ID (filter (isCluster nodes) (c # cs))"
    using b1(2) b2(2) by simp
  ultimately show ?case by blast
qed

lemma parseSkeleton_result:
  assumes "parseSkeleton (Some rel) nodes = Inr sk"
  shows "map rawBone_ID (rawBones sk) = map ID (filter (isCluster nodes) (children rel))"
proof -
  from assms obtain bs where f: "foldE (pushBone nodes) (children rel) [] = Inr bs"
    and sk: "rawBones sk = bs"
    by (auto simp: parseSkeleton_def split: sum.splits)
  from foldE_pushBone_result [OF f] sk show ?thesis by auto
qed

lemma parseDeformer_skin:
  assumes "parseDeformer conns nodes acc (nodeID, node) = Inr acc'"
    and "deformer_attrType node = JString ''Skin''"
    and "conns nodeID = Some rel"
  shows "\<exists>sk. map_of (deformers_skeletons acc') nodeID = Some sk
           \<and> map rawBone_ID (rawBones sk) = map ID (filter (isCluster nodes) (children rel))
           \<and> skeleton_ID sk = Some nodeID
           \<and> geometryID sk = Some (ID (hd (parents rel)))"
proof -
  from assms obtain sk p ps where
    sk: "parseSkeleton (Some rel) nodes = Inr sk" and p: "parents rel = p # ps"
    and acc': "acc' = acc\<lparr>deformers_skeletons :=
                 assign nodeID (sk\<lparr>skeleton_ID := Some nodeID, geometryID := Some (ID p)\<rparr>)
                   (deformers_skeletons acc)\<rparr>"
    by (auto simp: parseDeformer_def Let_def split: sum.splits list.splits)
  from parseSkeleton_result [OF sk] acc' p show ?thesis
    by (simp add: map_of_assign)
qed

lemma parseDeformer_other:
  assumes "parseDeformer conns nodes acc (k, n) = Inr acc'"
    and "k \<noteq> nodeID"
  shows "map_of (deformers_skeletons acc') nodeID = map_of (deformers_skeletons acc) nodeID"
  using assms
  by (auto simp: parseDeformer_def Let_def map_of_assign
      split: sum.splits list.splits option.splits if_splits)

lemma parseDeformers_loop_other:
  assumes "foldE (parseDeformer conns nodes) xs acc = Inr d"
    and "nodeID \<notin> fst ` set xs"
  shows "map_of (deformers_skeletons d) nodeID = map_of (deformers_skeletons acc) nodeID"
  using assms
proof (induction xs arbitrary: acc)
  case Nil
  then show ?case by simp
next
  case (Cons x xs)
  obtain k n where x: "x = (k, n)" by (cases x) auto
  from Cons.prems(1) x obtain a1 where
    step: "parseDeformer conns nodes acc (k, n) = Inr a1"
    and rest: "foldE (parseDeformer conns nodes) xs a1 = Inr d"
    by (auto split: sum.splits)
  from Cons.prems(2) x have k: "k \<noteq> nodeID" and fresh: "nodeID \<notin> fst ` set xs" by auto
  from Cons.IH [OF rest fresh] parseDeformer_other [OF step k] show ?case by simp
qed

lemma parseDeformers_loop_skin:
  assumes "foldE (parseDeformer conns nodes) xs acc = Inr d"
    and "distinct (map fst xs)"
    and "(nodeID, node) \<in> set xs"
    and "deformer_attrType node = JString ''Skin''"
    and "conns nodeID = Some rel"
  shows "\<exists>sk. map_of (deformers_skeletons d) nodeID = Some sk
           \<and> map rawBone_ID (rawBones sk) = map ID (filter (isCluster nodes) (children rel))
           \<and> skeleton_ID sk = Some nodeID
           \<and> geometryID sk = Some (ID (hd (parents rel)))"
  using assms(1-3)
proof (induction xs arbitrary: acc)
  case Nil
  then show ?case by simp
next
  case (Cons x xs)
  obtain k n where x: "x = (k, n)" by (cases x) auto
  from Cons.prems(1) x obtain a1 where
    step: "parseDeformer conns nodes acc (k, n) = Inr a1"
    and rest: "foldE (parseDeformer conns nodes) xs a1 = Inr d"
    by (auto split: sum.splits)
  from Cons.prems(2) x have fresh: "k \<notin> fst ` set xs" and d: "distinct (map fst xs)" by auto
  show ?case
  proof (cases "(nodeID, node) = (k, n)")
    case True
    with step have "parseDeformer conns nodes acc (nodeID, node) = Inr a1" by simp
    from parseDeformer_skin [OF this assms(4,5)] obtain sk where
      sk: "map_of (deformers_skeletons a1) nodeID = Some sk"
        "map rawBone_ID (rawBones sk) = map ID (filter (isCluster nodes) (children rel))"
        "skeleton_ID sk = Some nodeID" "geometryID sk = Some (ID (hd (parents rel)))" by blast
    from True fresh have "nodeID \<notin> fst ` set xs" by simp
    from parseDeformers_loop_other [OF rest this] sk show ?thesis by simp
  next
    case False
    with Cons.prems(3) x have "(nodeID, node) \<in> set xs" by auto
    from Cons.IH [OF rest d this] show ?thesis .
  qed
qed

lemma parseDeformer_records:
  assumes "deformer_attrType node = JString ''Skin''"
    and "conns nodeID = Some rel"
    and "\<forall>c \<in> set (children rel). readableBone nodes c"
    and "parents rel \<noteq> []"
  shows "\<exists>acc' sk. parseDeformer conns nodes acc (nodeID, node) = Inr acc'
           \<and> map_of (deformers_skeletons acc') nodeID = Some sk
           \<and> map rawBone_ID (rawBones sk) = map ID (filter (isCluster nodes) (children rel))
           \<and> skeleton_ID sk = Some nodeID
           \<and> geometryID sk = Some (ID (hd (parents rel)))"
proof -
  from parseSkeleton_readable [OF assms(3)] obtain sk where
    sk: "parseSkeleton (Some rel) nodes = Inr sk" by blast
  from assms(4) obtain p ps where p: "parents rel = p # ps" by (cases "parents rel") auto
  from sk p assms(1,2) obtain acc' where
    step: "parseDeformer conns nodes acc (nodeID, node) = Inr acc'"
    by (simp add: parseDeformer_def Let_def)
  from parseDeformer_skin [OF step assms(1,2)] step show ?thesis by blast
qed

lemma foldE_returns:
  assumes "\<And>s x. x \<in> set xs \<Longrightarrow> \<exists>s'. f s x = Inr s'"
  shows "\<exists>r. foldE f xs s = Inr r"
  using assms
proof (induction xs arbitrary: s)
  case Nil
  then show ?case by simp
next
  case (Cons x xs)
  from Cons.prems [of x s] obtain s1 where s1: "f s x = Inr s1" by auto
  have "\<exists>r. foldE f xs s1 = Inr r"
  proof (rule Cons.IH)
    fix s' y assume "y \<in> set xs"
    then have "y \<in> set (x # xs)" by simp
    from Cons.prems [OF this] show "\<exists>s''. f s' y = Inr s''" .
  qed
  with s1 show ?case by simp
qed

lemma parseDeformers_records:
  assumes "deformer_attrType node = JString ''Skin''"
    and "conns nodeID = Some rel"
    and "\<forall>c \<in> set (children rel). readableBone nodes c"
    and "parents rel \<noteq> []"
    and "distinct (map fst nodes)"
    and "(nodeID, node) \<in> set nodes"
    and others: "\<forall>acc entry. entry \<in> set nodes \<and> fst entry \<noteq> nodeID
            \<longrightarrow> (\<exists>acc'. parseDeformer conns nodes acc entry = Inr acc')"
  shows "\<exists>d sk. parseDeformers conns (Some nodes) = Inr d
           \<and> map_of (deformers_skeletons d) nodeID = Some sk
           \<and> map rawBone_ID (rawBones sk) = map ID (filter (isCluster nodes) (children rel))
           \<and> skeleton_ID sk = Some nodeID
           \<and> geometryID sk = Some (ID (hd (parents rel)))"
proof -
  have step: "\<exists>acc'. parseDeformer conns nodes acc entry = Inr acc'" if "entry \<in> set nodes"
    for acc entry
  proof (cases "fst entry = nodeID")
    case False
    with others that show ?thesis by blast
  next
    case True
    obtain k n where e: "entry = (k, n)" by (cases entry) auto
    with True have k: "k = nodeID" by simp
    from assms(5,6) that e k have "n = node"
      by (metis eq_key_imp_eq_value)
    with e k assms(1-4)
      parseDeformer_records [where conns = conns and nodeID = nodeID and rel = rel
        and node = node and nodes = nodes and acc = acc]
    show ?thesis by blast
  qed
  from foldE_returns [of nodes "parseDeformer conns nodes", OF step]
  obtain d where d: "foldE (parseDeformer conns nodes) nodes
       \<lparr>deformers_skeletons = [], deformers_morphTargets = []\<rparr> = Inr d" by blast
  from parseDeformers_loop_skin [where conns = conns and nodeID = nodeID and rel = rel
      and node = node and nodes = nodes and xs = nodes and d = d
      and acc = "\<lparr>deformers_skeletons = [], deformers_morphTargets = []\<rparr>"]
    d assms(1,2,5,6)
  show ?thesis by (simp add: parseDeformers_def)
qed

subsection \<open>Joints of shared raw bones\<close>

lemma matchBone_chain:
  assumes "chain n0 k (bone, heap)"
    and "matchBone s modelID name p (bone, sb, heap) (rb, i) = (bone', sb', heap')"
  shows "chain n0 (k + (if rawBone_ID rb = ID p then 1 else 0)) (bone', heap')"
proof (cases "rawBone_ID rb = ID p")
  case False
  with assms show ?thesis by (simp add: matchBone_def)
next
  case True
  show ?thesis
  proof (cases k)
    case 0
    with assms True show ?thesis
      by (auto simp: matchBone_def chain_def newBone_def Let_def)
  next
    case (Suc k')
    with assms True show ?thesis
      by (auto simp: matchBone_def chain_def newBone_def Let_def Object3D_add_def)
  qed
qed


lemma foldl_matchBone_chain:
  assumes "chain n0 k (bone, heap)"
    and "foldl (matchBone s modelID name p) (bone, sb, heap) entries = (bone', sb', heap')"
  shows "chain n0 (k + length (filter (\<lambda>rb. rawBone_ID rb = ID p) (map fst entries))) (bone', heap')"
  using assms
proof (induction entries arbitrary: k bone sb heap)
  case Nil
  then show ?case by simp
next
  case (Cons e entries)
  obtain rb i where e: "e = (rb, i)" by (cases e) auto
  obtain b1 s1 h1 where step: "matchBone s modelID name p (bone, sb, heap) (rb, i) = (b1, s1, h1)"
    by (cases "matchBone s modelID name p (bone, sb, heap) (rb, i)") auto
  from matchBone_chain [OF Cons.prems(1) step]
  have c1: "chain n0 (k + (if rawBone_ID rb = ID p then 1 else 0)) (b1, h1)" .
  from Cons.prems(2) e step
  have rest: "foldl (matchBone s modelID name p) (b1, s1, h1) entries = (bone', sb', heap')"
    by simp
  from Cons.IH [OF c1 rest] e show ?case
    by (cases "rawBone_ID rb = ID p") simp_all
qed

lemma matchSkeleton_chain:
  assumes "chain n0 k st"
    and "matchSkeleton s modelID name p st sk = (sk', st')"
  shows "chain n0 (k + length (filter (\<lambda>rb. rawBone_ID rb = ID p) (rawBones sk))) st'
       \<and> rawBones sk' = rawBones sk"
proof -
  obtain bone heap where st: "st = (bone, heap)" by (cases st) auto
  obtain b1 s1 h1 where
    f: "foldl (matchBone s modelID name p) (bone, bones sk, heap)
          (zip (rawBones sk) [0..<length (rawBones sk)]) = (b1, s1, h1)"
    by (cases "foldl (matchBone s modelID name p) (bone, bones sk, heap)
          (zip (rawBones sk) [0..<length (rawBones sk)])") auto
  from assms(2) st f have r: "sk' = sk\<lparr>bones := s1\<rparr>" "st' = (b1, h1)"
    by (simp_all add: matchSkeleton_def)
  have "map fst (zip (rawBones sk) [0..<length (rawBones sk)]) = rawBones sk"
    by simp
  with foldl_matchBone_chain [OF assms(1) [unfolded st] f] r show ?thesis by simp
qed

lemma matchSkeletons_chain:
  assumes "chain n0 k st"
    and "matchSkeletons s modelID name p sks st = (sks', st')"
  shows "chain n0 (k + skeletonMatches p sks) st'
       \<and> map (\<lambda>(k, sk). rawBones sk) sks' = map (\<lambda>(k, sk). rawBones sk) sks"
  using assms
proof (induction sks arbitrary: k st sks' st')
  case Nil
  then show ?case by (simp add: skeletonMatches_def)
next
  case (Cons e sks)
  obtain key sk where e: "e = (key, sk)" by (cases e) auto
  obtain sk1 st1 where one: "matchSkeleton s modelID name p st sk = (sk1, st1)"
    by (cases "matchSkeleton s modelID name p st sk") auto
  obtain rest1 st2 where more: "matchSkeletons s modelID name p sks st1 = (rest1, st2)"
    by (cases "matchSkeletons s modelID name p sks st1") auto
  from Cons.prems(2) e one more have r: "sks' = (key, sk1) # rest1" "st' = st2" by simp_all
  from matchSkeleton_chain [OF Cons.prems(1) one]
  have c1: "chain n0 (k + length (filter (\<lambda>rb. rawBone_ID rb = ID p) (rawBones sk))) st1"
    and raw1: "rawBones sk1 = rawBones sk" by simp_all
  from Cons.IH [OF c1 more] r e raw1 show ?case
    by (simp add: skeletonMatches_def add.assoc)
qed

lemma skeletonMatches_cong:
  assumes "map (\<lambda>(k, sk). rawBones sk) sks' = map (\<lambda>(k, sk). rawBones sk) sks"
  shows "skeletonMatches p sks' = skeletonMatches p sks"
proof -
  have h: "skeletonMatches p xs =
          length (concat (map (filter (\<lambda>rawBone. rawBone_ID rawBone = ID p))
                            (map (\<lambda>(k, sk). rawBones sk) xs)))" for xs
    by (simp add: skeletonMatches_def comp_def case_prod_unfold)
  show ?thesis unfolding h assms by (rule refl)
qed

lemma buildSkeleton_loop_chain:
  assumes "chain n0 k st"
    and "foldl (\<lambda>state parent. case state of (sks', st) \<Rightarrow> matchSkeletons s modelID name parent sks' st)
           (sks, st) ps = (sks'', st'')"
  shows "chain n0 (k + sum_list (map (\<lambda>p. skeletonMatches p sks) ps)) st''"
  using assms
proof (induction ps arbitrary: k st sks)
  case Nil
  then show ?case by simp
next
  case (Cons p ps)
  obtain sks1 st1 where one: "matchSkeletons s modelID name p sks st = (sks1, st1)"
    by (cases "matchSkeletons s modelID name p sks st") auto
  from matchSkeletons_chain [OF Cons.prems(1) one]
  have c1: "chain n0 (k + skeletonMatches p sks) st1"
    and raw: "map (\<lambda>(k, sk). rawBones sk) sks1 = map (\<lambda>(k, sk). rawBones sk) sks" by simp_all
  from Cons.prems(2) one
  have rest: "foldl (\<lambda>state parent. case state of (sks', st) \<Rightarrow> matchSkeletons s modelID name parent sks' st)
           (sks1, st1) ps = (sks'', st'')" by simp
  have "map (\<lambda>p. skeletonMatches p sks1) ps = map (\<lambda>p. skeletonMatches p sks) ps"
    using skeletonMatches_cong [OF raw] by simp
  with Cons.IH [OF c1 rest] show ?case by (simp add: add.assoc)
qed

lemma matchCount_sum:
  "matchCount rel sks = sum_list (map (\<lambda>p. skeletonMatches p sks) (parents rel))"
  by (simp add: matchCount_def skeletonMatches_def length_concat comp_def)

lemma buildSkeleton_chain:
  assumes "buildSkeleton s (Some rel) sks modelID name heap = Inr (sks', bone, heap')"
  shows "chain (length (heap_bones heap)) (matchCount rel sks) (bone, heap')"
proof -
  have init: "chain (length (heap_bones heap)) 0 (None, heap)"
    by (simp add: chain_def)
  from assms
  have "foldl (\<lambda>state parent. case state of (sks', st) \<Rightarrow> matchSkeletons s modelID name parent sks' st)
           (sks, (None, heap)) (parents rel) = (sks', (bone, heap'))"
    by (simp add: buildSkeleton_def)
  from buildSkeleton_loop_chain [OF init this] show ?thesis
    by (simp add: matchCount_sum)
qed

lemma skeletonMatches_ge:
  "length (filter (\<lambda>(k, sk). list_ex (\<lambda>rawBone. rawBone_ID rawBone = ID p) (rawBones sk)) sks)
     \<le> skeletonMatches p sks"
proof (induction sks)
  case Nil
  then show ?case by (simp add: skeletonMatches_def)
next
  case (Cons e sks)
  obtain k sk where e: "e = (k, sk)" by (cases e) auto
  have one: "list_ex (\<lambda>rawBone. rawBone_ID rawBone = ID p) (rawBones sk)
               \<Longrightarrow> 1 \<le> length (filter (\<lambda>rawBone. rawBone_ID rawBone = ID p) (rawBones sk))"
    by (auto simp: list_ex_iff filter_empty_conv Suc_le_eq)
  have "skeletonMatches p (e # sks)
          = length (filter (\<lambda>rawBone. rawBone_ID rawBone = ID p) (rawBones sk)) + skeletonMatches p sks"
    using e by (simp add: skeletonMatches_def)
  with Cons.IH one e show ?case by auto
qed

lemma sharedBone_matchCount:
  assumes "sharedBone rel sks"
  shows "2 \<le> matchCount rel sks"
proof -
  from assms obtain p where p: "p \<in> set (parents rel)"
    and two: "2 \<le> length (filter (\<lambda>(k, sk). list_ex (\<lambda>rawBone. rawBone_ID rawBone = ID p) (rawBones sk)) sks)"
    by (auto simp: sharedBone_def list_ex_iff)
  from two skeletonMatches_ge [of p sks] have "2 \<le> skeletonMatches p sks" by simp
  moreover have "skeletonMatches p sks \<le> sum_list (map (\<lambda>p. skeletonMatches p sks) (parents rel))"
    using p by (simp add: member_le_sum_list)
  ultimately show ?thesis by (simp add: matchCount_sum)
qed

text \<open>
  C4, as amended. Let a Skin deformer have at least one parent in the connection graph,
  let every child of it resolve to a deformer node, and let every Cluster among them
  have a \<^verbatim>\<open>TransformLink\<close> array and, with \<^verbatim>\<open>Indexes\<close>, also \<^verbatim>\<open>Weights\<close>. Then the
  step of \<open>parseDeformers\<close> for that node returns and records under its key a raw skeleton
  whose raw bones are the Cluster children in connection order, as many as there are;
  and the whole pass returns with that skeleton recorded if no other deformer node makes
  it raise. In \<open>buildSkeleton\<close> every success of the test \<^verbatim>\<open>rawBone.ID === parent.ID\<close>
  constructs one joint, the last one is returned, and every joint after the first has the
  joint constructed before it as its only child; when a parent of the model is a raw bone
  of two skeletons, at least two joints are constructed and the first is the child of
  the second.
\<close>

theorem skeleton_bones:
  assumes "deformer_attrType node = JString ''Skin''"
    and "conns nodeID = Some rel"
    and "\<forall>c \<in> set (children rel). readableBone DeformerNodes c"
    and "parents rel \<noteq> []"
    and "buildSkeleton s (Some modelRel) sks modelID name heap = Inr (sks', bone, heap')"
  shows "(\<exists>acc' sk. parseDeformer conns DeformerNodes acc (nodeID, node) = Inr acc'
            \<and> map_of (deformers_skeletons acc') nodeID = Some sk
            \<and> map rawBone_ID (rawBones sk) = map ID (filter (isCluster DeformerNodes) (children rel))
            \<and> length (rawBones sk) = length (filter (isCluster DeformerNodes) (children rel)))
       \<and> (distinct (map fst DeformerNodes) \<and> (nodeID, node) \<in> set DeformerNodes
            \<and> (\<forall>acc entry. entry \<in> set DeformerNodes \<and> fst entry \<noteq> nodeID
                  \<longrightarrow> (\<exists>acc'. parseDeformer conns DeformerNodes acc entry = Inr acc'))
          \<longrightarrow> (\<exists>d sk. parseDeformers conns (Some DeformerNodes) = Inr d
                  \<and> map_of (deformers_skeletons d) nodeID = Some sk
                  \<and> map rawBone_ID (rawBones sk) = map ID (filter (isCluster DeformerNodes) (children rel))
                  \<and> length (rawBones sk) = length (filter (isCluster DeformerNodes) (children rel))))
       \<and> length (heap_bones heap') = length (heap_bones heap) + matchCount modelRel sks
       \<and> bone = (if matchCount modelRel sks = 0 then None
                  else Some (length (heap_bones heap) + matchCount modelRel sks - 1))
       \<and> (\<forall>j. j + 1 < matchCount modelRel sks \<longrightarrow>
             object_children (heap_tree heap') (length (heap_bones heap) + j + 1)
               = [length (heap_bones heap) + j]
             \<and> object_parent (heap_tree heap') (length (heap_bones heap) + j)
               = Some (length (heap_bones heap) + j + 1))
       \<and> (sharedBone modelRel sks \<longrightarrow>
             2 \<le> matchCount modelRel sks
             \<and> object_children (heap_tree heap') (length (heap_bones heap) + 1)
               = [length (heap_bones heap)]
             \<and> object_parent (heap_tree heap') (length (heap_bones heap))
               = Some (length (heap_bones heap) + 1))"
proof -
  let ?ids = "map ID (filter (isCluster DeformerNodes) (children rel))"
  have len: "length (rawBones sk) = length (filter (isCluster DeformerNodes) (children rel))"
    if "map rawBone_ID (rawBones sk) = ?ids" for sk
    using that by (metis length_map)
  have one: "\<exists>acc' sk. parseDeformer conns DeformerNodes acc (nodeID, node) = Inr acc'
            \<and> map_of (deformers_skeletons acc') nodeID = Some sk
            \<and> map rawBone_ID (rawBones sk) = ?ids
            \<and> length (rawBones sk) = length (filter (isCluster DeformerNodes) (children rel))"
    using parseDeformer_records [where conns = conns and nodeID = nodeID and rel = rel
        and node = node and nodes = DeformerNodes and acc = acc] assms(1-4) len
    by blast
  have pass: "\<exists>d sk. parseDeformers conns (Some DeformerNodes) = Inr d
                  \<and> map_of (deformers_skeletons d) nodeID = Some sk
                  \<and> map rawBone_ID (rawBones sk) = ?ids
                  \<and> length (rawBones sk) = length (filter (isCluster DeformerNodes) (children rel))"
    if "distinct (map fst DeformerNodes)" and "(nodeID, node) \<in> set DeformerNodes"
      and "\<forall>acc entry. entry \<in> set DeformerNodes \<and> fst entry \<noteq> nodeID
                  \<longrightarrow> (\<exists>acc'. parseDeformer conns DeformerNodes acc entry = Inr acc')"
    using parseDeformers_records [where conns = conns and nodeID = nodeID and rel = rel
        and node = node and nodes = DeformerNodes] assms(1-4) that len
    by blast
  from buildSkeleton_chain [OF assms(5)]
  have c: "chain (length (heap_bones heap)) (matchCount modelRel sks) (bone, heap')" .
  have joints: "length (heap_bones heap') = length (heap_bones heap) + matchCount modelRel sks"
    "bone = (if matchCount modelRel sks = 0 then None
             else Some (length (heap_bones heap) + matchCount modelRel sks - 1))"
    using c by (simp_all add: chain_def)
  have link: "object_children (heap_tree heap') (length (heap_bones heap) + j + 1)
               = [length (heap_bones heap) + j]
             \<and> object_parent (heap_tree heap') (length (heap_bones heap) + j)
               = Some (length (heap_bones heap) + j + 1)"
    if "j + 1 < matchCount modelRel sks" for j
    using c that unfolding chain_def by blast
  have shared: "2 \<le> matchCount modelRel sks
             \<and> object_children (heap_tree heap') (length (heap_bones heap) + 1)
               = [length (heap_bones heap)]
             \<and> object_parent (heap_tree heap') (length (heap_bones heap))
               = Some (length (heap_bones heap) + 1)"
    if "sharedBone modelRel sks"
  proof -
    from sharedBone_matchCount [OF that] have two: "2 \<le> matchCount modelRel sks" .
    then have "0 + 1 < matchCount modelRel sks" by simp
    from link [OF this] two show ?thesis by simp
  qed
  from one pass joints link shared show ?thesis by blast
qed

theorem skeleton_bones_witness:
  "(\<exists>acc' sk. parseDeformer exampleSkinConnections exampleDeformerNodes
                 \<lparr>deformers_skeletons = [], deformers_morphTargets = []\<rparr>
                 (100, deformerOfType ''Skin'') = Inr acc'
       \<and> map_of (deformers_skeletons acc') 100 = Some sk
       \<and> map rawBone_ID (rawBones sk) = [101, 102] \<and> length (rawBones sk) = 2)
   \<and> (\<exists>d sk. parseDeformers exampleSkinConnections (Some exampleDeformerNodes) = Inr d
       \<and> map_of (deformers_skeletons d) 100 = Some sk
       \<and> map rawBone_ID (rawBones sk) = [101, 102] \<and> length (rawBones sk) = 2)
   \<and> sharedBone \<lparr>parents = [edge 101], children = []\<rparr> exampleSkeletons
   \<and> matchCount \<lparr>parents = [edge 101], children = []\<rparr> exampleSkeletons = 2
   \<and> (case buildSkeleton (\<lambda>n. n) (Some \<lparr>parents = [edge 101], children = []\<rparr>) exampleSkeletons 50
             (Some ''hip'') emptyHeap of
         Inl err \<Rightarrow> False
       | Inr (sks', bone, heap') \<Rightarrow>
           length (heap_bones heap') = 2 \<and> bone = Some 1
           \<and> object_children (heap_tree heap') 1 = [0]
           \<and> object_parent (heap_tree heap') 0 = Some 1)"
proof -
  let ?rel = "\<lparr>parents = [edge 300], children = [edge 101, edge 102]\<rparr>"
  let ?modelRel = "\<lparr>parents = [edge 101], children = []\<rparr>"
  let ?acc = "\<lparr>deformers_skeletons = [], deformers_morphTargets = []\<rparr>"
  have skin: "deformer_attrType (deformerOfType ''Skin'') = JString ''Skin''"
    by (simp add: deformerOfType_def)
  have rel: "exampleSkinConnections 100 = Some ?rel"
    by (simp add: exampleSkinConnections_def)
  have readable: "\<forall>c \<in> set (children ?rel). readableBone exampleDeformerNodes c"
    by (simp add: readableBone_def exampleDeformerNodes_def edge_def deformerOfType_def
        identityMatrix_def)
  have parent: "parents ?rel \<noteq> []" by simp
  obtain sks' bone heap' where
    b: "buildSkeleton (\<lambda>n. n) (Some ?modelRel) exampleSkeletons 50 (Some ''hip'') emptyHeap
          = Inr (sks', bone, heap')"
    by (cases "foldl (\<lambda>state parent. case state of (sks', st) \<Rightarrow>
                  matchSkeletons (\<lambda>n. n) 50 (Some ''hip'') parent sks' st)
                 (exampleSkeletons, None, emptyHeap) (parents ?modelRel)")
       (auto simp: buildSkeleton_def)
  have keys: "distinct (map fst exampleDeformerNodes)"
    by (simp add: exampleDeformerNodes_def)
  have mem: "(100, deformerOfType ''Skin'') \<in> set exampleDeformerNodes"
    by (simp add: exampleDeformerNodes_def)
  have morph: "parseMorphTargets exampleSkinConnections
       (Some \<lparr>parents = [edge 300], children = [edge 201, edge 202, edge 201]\<rparr>)
       exampleDeformerNodes = Inr None"
    by (simp add: parseMorphTargets_def exampleDeformerNodes_def exampleSkinConnections_def
        exampleDeformerConnections_def edge_def deformerOfType_def)
  have others: "\<forall>acc entry. entry \<in> set exampleDeformerNodes \<and> fst entry \<noteq> 100
       \<longrightarrow> (\<exists>acc'. parseDeformer exampleSkinConnections exampleDeformerNodes acc entry = Inr acc')"
  proof (intro allI impI)
    fix acc :: deformers and entry :: "int \<times> deformerNode"
    assume e: "entry \<in> set exampleDeformerNodes \<and> fst entry \<noteq> 100"
    have conn: "exampleSkinConnections 200
                  = Some \<lparr>parents = [edge 300], children = [edge 201, edge 202, edge 201]\<rparr>"
      by (simp add: exampleSkinConnections_def exampleDeformerConnections_def)
    from e consider "deformer_attrType (snd entry) = JString ''Cluster''"
      | "deformer_attrType (snd entry) = JString ''BlendShapeChannel''"
      | "deformer_attrType (snd entry) = JString ''Other''"
      | "entry = (200, deformerOfType ''BlendShape'')"
      by (auto simp: exampleDeformerNodes_def deformerOfType_def)
    then show "\<exists>acc'. parseDeformer exampleSkinConnections exampleDeformerNodes acc entry = Inr acc'"
    proof cases
      case 4
      with morph conn show ?thesis
        by (simp add: parseDeformer_def deformerOfType_def)
    qed (simp_all add: parseDeformer_def case_prod_unfold)
  qed
  have shared: "sharedBone ?modelRel exampleSkeletons"
    by (simp add: sharedBone_def exampleSkeletons_def exampleRawBone_def edge_def)
  have two: "matchCount ?modelRel exampleSkeletons = 2"
    by (simp add: matchCount_def exampleSkeletons_def exampleRawBone_def edge_def)
  have clusters: "map ID (filter (isCluster exampleDeformerNodes) (children ?rel)) = [101, 102]"
    by (simp add: isCluster_def exampleDeformerNodes_def edge_def deformerOfType_def)
  have h0: "length (heap_bones emptyHeap) = 0" by (simp add: emptyHeap_def)
  from skeleton_bones [where node = "deformerOfType ''Skin''" and conns = exampleSkinConnections
      and nodeID = 100 and rel = ?rel and DeformerNodes = exampleDeformerNodes
      and s = "\<lambda>n. n" and modelRel = ?modelRel and sks = exampleSkeletons and modelID = 50
      and name = "Some ''hip''" and heap = emptyHeap and sks' = sks' and bone = bone
      and heap' = heap' and acc = ?acc]
    skin rel readable parent b keys mem others shared two clusters h0
  show ?thesis by auto
qed

text \<open>
  The claim C4 as it was stated fails: each Skin deformer below has exactly one Cluster
  child, or two, and the step of \<open>parseDeformers\<close> for it raises instead of producing a
  raw skeleton with as many raw bones. The Cluster 103 has no \<^verbatim>\<open>TransformLink\<close>; the
  Cluster 105 has \<^verbatim>\<open>Indexes\<close> without \<^verbatim>\<open>Weights\<close>; the child 999 beside the Cluster
  101 is no deformer node; the last Skin deformer, with the Clusters 101 and 102, has no
  parent.
\<close>

theorem parseDeformer_raises:
  "parseDeformer [100 \<mapsto> \<lparr>parents = [edge 300], children = [edge 103]\<rparr>] exampleDeformerNodes
       \<lparr>deformers_skeletons = [], deformers_morphTargets = []\<rparr> (100, deformerOfType ''Skin'')
     = Inl (TypeError ''boneNode.TransformLink.a'')
   \<and> length (filter (isCluster exampleDeformerNodes) [edge 103]) = 1
   \<and> parseDeformer [100 \<mapsto> \<lparr>parents = [edge 300], children = [edge 105]\<rparr>] exampleDeformerNodes
       \<lparr>deformers_skeletons = [], deformers_morphTargets = []\<rparr> (100, deformerOfType ''Skin'')
     = Inl (TypeError ''boneNode.Weights.a'')
   \<and> length (filter (isCluster exampleDeformerNodes) [edge 105]) = 1
   \<and> parseDeformer [100 \<mapsto> \<lparr>parents = [edge 300], children = [edge 999, edge 101]\<rparr>]
       exampleDeformerNodes
       \<lparr>deformers_skeletons = [], deformers_morphTargets = []\<rparr> (100, deformerOfType ''Skin'')
     = Inl (TypeError ''boneNode.attrType'')
   \<and> length (filter (isCluster exampleDeformerNodes) [edge 999, edge 101]) = 1
   \<and> parseDeformer [100 \<mapsto> \<lparr>parents = [], children = [edge 101, edge 102]\<rparr>] exampleDeformerNodes
       \<lparr>deformers_skeletons = [], deformers_morphTargets = []\<rparr> (100, deformerOfType ''Skin'')
     = Inl (TypeError ''relationships.parents[0].ID'')
   \<and> length (filter (isCluster exampleDeformerNodes) [edge 101, edge 102]) = 2
   \<and> parseDeformers [100 \<mapsto> \<lparr>parents = [], children = [edge 101, edge 102]\<rparr>]
       (Some exampleDeformerNodes)
     = Inl (TypeError ''relationships.parents[0].ID'')"
  by (simp add: parseDeformers_def parseDeformer_def parseSkeleton_def pushBone_def parseBone_def
      isCluster_def fromArray_def exampleDeformerNodes_def edge_def deformerOfType_def
      identityMatrix_def)

subsection \<open>Hierarchy assembly\<close>

lemma Object3D_add_parent:
  "object_parent (Object3D_add h t obj) x =
     (if x = obj \<and> obj \<noteq> t then Some t else object_parent h x)"
  by (simp add: Object3D_add_def Object3D_remove_def Let_def split: option.splits)

lemma Object3D_remove_wellFormed:
  assumes "wellFormed h" and "object_parent h obj = Some q"
  shows "wellFormed (Object3D_remove h q obj)"
    and "object_parent (Object3D_remove h q obj) obj = None"
proof -
  from assms have mem: "obj \<in> set (object_children h q)" by (simp add: wellFormed_def)
  from assms(1) have d: "distinct (object_children h p)" for p by (simp add: wellFormed_def)
  from assms(1) have iff: "object_parent h x = Some p \<longleftrightarrow> x \<in> set (object_children h p)" for x p
    by (simp add: wellFormed_def)
  show "object_parent (Object3D_remove h q obj) obj = None"
    using mem by (simp add: Object3D_remove_def)
  show "wellFormed (Object3D_remove h q obj)"
    unfolding wellFormed_def
  proof (intro conjI allI)
    fix x p
    show "object_parent (Object3D_remove h q obj) x = Some p
            \<longleftrightarrow> x \<in> set (object_children (Object3D_remove h q obj) p)"
    proof (cases "x = obj")
      case True
      have "obj \<notin> set (object_children h p)" if "p \<noteq> q"
        using iff [of obj p] assms(2) that by simp
      with True mem d [of q] show ?thesis
        by (auto simp: Object3D_remove_def)
    next
      case False
      with mem d [of q] iff [of x p] show ?thesis
        by (auto simp: Object3D_remove_def)
    qed
  next
    fix p
    show "distinct (object_children (Object3D_remove h q obj) p)"
      using d by (simp add: Object3D_remove_def distinct_remove1)
  qed
qed

lemma push_wellFormed:
  assumes "wellFormed h" and "object_parent h obj = None"
  shows "wellFormed (h\<lparr>object_parent := (object_parent h)(obj \<mapsto> t),
                       object_children := (object_children h)(t := object_children h t @ [obj])\<rparr>)"
proof -
  from assms(1) have d: "distinct (object_children h p)" for p by (simp add: wellFormed_def)
  from assms(1) have iff: "object_parent h x = Some p \<longleftrightarrow> x \<in> set (object_children h p)" for x p
    by (simp add: wellFormed_def)
  from iff [of obj] assms(2) have fresh: "obj \<notin> set (object_children h p)" for p by simp
  show ?thesis
    unfolding wellFormed_def
  proof (intro conjI allI)
    fix x p
    show "object_parent (h\<lparr>object_parent := (object_parent h)(obj \<mapsto> t),
                       object_children := (object_children h)(t := object_children h t @ [obj])\<rparr>) x = Some p
        \<longleftrightarrow> x \<in> set (object_children (h\<lparr>object_parent := (object_parent h)(obj \<mapsto> t),
                       object_children := (object_children h)(t := object_children h t @ [obj])\<rparr>) p)"
      using iff [of x p] fresh [of p] by auto
  next
    fix p
    show "distinct (object_children (h\<lparr>object_parent := (object_parent h)(obj \<mapsto> t),
                       object_children := (object_children h)(t := object_children h t @ [obj])\<rparr>) p)"
      using d [of p] d [of t] fresh [of t] by simp
  qed
qed

lemma Object3D_add_wellFormed:
  assumes "wellFormed h"
  shows "wellFormed (Object3D_add h t obj)"
proof (cases "obj = t")
  case True
  with assms show ?thesis by (simp add: Object3D_add_def)
next
  case False
  show ?thesis
  proof (cases "object_parent h obj")
    case None
    with False push_wellFormed [OF assms None, of t] show ?thesis
      by (simp add: Object3D_add_def)
  next
    case (Some q)
    from Object3D_remove_wellFormed [OF assms Some]
    have "wellFormed (Object3D_remove h q obj)"
      and "object_parent (Object3D_remove h q obj) obj = None" by simp_all
    from push_wellFormed [OF this, of t] False Some show ?thesis
      by (simp add: Object3D_add_def Let_def)
  qed
qed


lemma foldE_invariant:
  assumes "foldE f xs s = Inr s'"
    and "P s"
    and "\<And>a x b. P a \<Longrightarrow> x \<in> set xs \<Longrightarrow> f a x = Inr b \<Longrightarrow> P b"
  shows "P s'"
  using assms
proof (induction xs arbitrary: s)
  case Nil
  then show ?case by simp
next
  case (Cons x xs)
  from Cons.prems(1) obtain s1 where s1: "f s x = Inr s1" and rest: "foldE f xs s1 = Inr s'"
    by (auto split: sum.splits)
  from Cons.prems(3) [OF Cons.prems(2) _ s1] have p1: "P s1" by simp
  show ?case
  proof (rule Cons.IH [OF rest p1])
    fix a y b
    assume "P a" and "y \<in> set xs" and "f a y = Inr b"
    with Cons.prems(3) [of a y b] show "P b" by simp
  qed
qed

lemma lookAtChild_keeps:
  assumes "lookAtChild modelNodes key model h child = Inr h'"
    and "wellFormed h"
  shows "wellFormed h'" and "object_parent h' (Model k) = object_parent h (Model k)"
  using assms
  by (auto simp: lookAtChild_def Object3D_add_wellFormed Object3D_add_parent
      split: if_splits option.splits)

lemma setLookAtProperties_keeps:
  assumes "setLookAtProperties conns modelNodes key model modelNode h = Inr h'"
    and "wellFormed h"
  shows "wellFormed h' \<and> (\<forall>k. object_parent h' (Model k) = object_parent h (Model k))"
proof (cases "LookAtProperty modelNode")
  case False
  with assms show ?thesis by (simp add: setLookAtProperties_def)
next
  case True
  with assms(1) obtain rel :: relationships where
    f: "foldE (lookAtChild modelNodes key model) (children rel) h = Inr h'"
    by (auto simp: setLookAtProperties_def split: option.splits)
  show ?thesis
  proof (rule foldE_invariant [OF f, where P = "\<lambda>a. wellFormed a
           \<and> (\<forall>k. object_parent a (Model k) = object_parent h (Model k))"])
    show "wellFormed h \<and> (\<forall>k. object_parent h (Model k) = object_parent h (Model k))"
      using assms(2) by simp
  next
    fix a x b
    assume "wellFormed a \<and> (\<forall>k. object_parent a (Model k) = object_parent h (Model k))"
      and "lookAtChild modelNodes key model a x = Inr b"
    then show "wellFormed b \<and> (\<forall>k. object_parent b (Model k) = object_parent h (Model k))"
      using lookAtChild_keeps [of modelNodes key model a x b] by simp
  qed
qed

lemma foldl_addToParent_wellFormed:
  "wellFormed h \<Longrightarrow> wellFormed (foldl (addToParent modelMap key) h ps)"
  by (induction ps arbitrary: h)
     (auto simp: addToParent_def Object3D_add_wellFormed split: option.splits)

lemma foldl_addToParent_parent:
  "object_parent (foldl (addToParent modelMap key) h ps) x =
     (if x = Model key then
        (case rev (filter (\<lambda>c. map_of modelMap (ID c) \<noteq> None \<and> ID c \<noteq> key) ps) of
           [] \<Rightarrow> object_parent h (Model key)
         | c # _ \<Rightarrow> Some (Model (ID c)))
      else object_parent h x)"
proof (induction ps rule: rev_induct)
  case Nil
  then show ?case by simp
next
  case (snoc c ps)
  then show ?case
    by (auto simp: addToParent_def Object3D_add_parent split: option.splits list.splits)
qed

lemma attachModel_step:
  assumes "attachModel conns modelNodes modelMap h (key, model) = Inr h'"
    and "wellFormed h"
  shows "wellFormed h'"
    and "k \<noteq> key \<Longrightarrow> object_parent h' (Model k) = object_parent h (Model k)"
    and "conns (model_ID model) = Some rel \<Longrightarrow> object_parent h (Model key) = None
           \<Longrightarrow> object_parent h' (Model key) = Some (lastResolvedParent modelMap key (parents rel))"
proof -
  from assms(1) obtain modelNode h1 rel' where
    look: "setLookAtProperties conns modelNodes key model modelNode h = Inr h1"
    and rel': "conns (model_ID model) = Some rel'"
    and h': "h' = (let h2 = foldl (addToParent modelMap key) h1 (parents rel')
                   in if object_parent h2 (Model key) = None
                      then Object3D_add h2 SceneGraph (Model key) else h2)"
    by (auto simp: attachModel_def Let_def split: option.splits sum.splits)
  from setLookAtProperties_keeps [OF look assms(2)]
  have wf1: "wellFormed h1" and same: "object_parent h1 (Model k) = object_parent h (Model k)" for k
    by simp_all
  let ?h2 = "foldl (addToParent modelMap key) h1 (parents rel')"
  have wf2: "wellFormed ?h2" using wf1 by (rule foldl_addToParent_wellFormed)
  show "wellFormed h'"
    using wf2 h' by (simp add: Let_def Object3D_add_wellFormed)
  show "object_parent h' (Model k) = object_parent h (Model k)" if "k \<noteq> key"
    using that h' same [of k]
    by (simp add: Let_def Object3D_add_parent foldl_addToParent_parent)
  show "object_parent h' (Model key) = Some (lastResolvedParent modelMap key (parents rel))"
    if "conns (model_ID model) = Some rel" and "object_parent h (Model key) = None"
  proof -
    from that(1) rel' have eq: "rel' = rel" by simp
    show ?thesis
      using h' same [of key] that(2) unfolding eq
      by (simp add: Let_def Object3D_add_parent foldl_addToParent_parent lastResolvedParent_def
          split: list.splits)
  qed
qed

lemma attachModels_other:
  assumes "foldE (attachModel conns modelNodes modelMap) xs h = Inr h'"
    and "wellFormed h"
    and "k \<notin> fst ` set xs"
  shows "wellFormed h' \<and> object_parent h' (Model k) = object_parent h (Model k)"
proof (rule foldE_invariant [OF assms(1), where P = "\<lambda>a. wellFormed a
         \<and> object_parent a (Model k) = object_parent h (Model k)"])
  show "wellFormed h \<and> object_parent h (Model k) = object_parent h (Model k)"
    using assms(2) by simp
next
  fix a x b
  assume a: "wellFormed a \<and> object_parent a (Model k) = object_parent h (Model k)"
    and x: "x \<in> set xs" and step: "attachModel conns modelNodes modelMap a x = Inr b"
  obtain key model where xk: "x = (key, model)" by (cases x) auto
  with x assms(3) have ne: "k \<noteq> key" by force
  from attachModel_step(1) [OF step [unfolded xk]] attachModel_step(2) [OF step [unfolded xk], of k] a ne
  show "wellFormed b \<and> object_parent b (Model k) = object_parent h (Model k)" by simp
qed

lemma attachModels_parent:
  assumes "foldE (attachModel conns modelNodes modelMap) xs h = Inr h'"
    and "wellFormed h"
    and "distinct (map fst xs)"
    and "\<forall>k \<in> fst ` set xs. object_parent h (Model k) = None"
    and "(key, model) \<in> set xs"
    and "conns (model_ID model) = Some rel"
  shows "wellFormed h'
       \<and> object_parent h' (Model key) = Some (lastResolvedParent modelMap key (parents rel))"
  using assms(1-5)
proof (induction xs arbitrary: h)
  case Nil
  then show ?case by simp
next
  case (Cons x xs)
  obtain k m where x: "x = (k, m)" by (cases x) auto
  from Cons.prems(1) x obtain h1 where
    step: "attachModel conns modelNodes modelMap h (k, m) = Inr h1"
    and rest: "foldE (attachModel conns modelNodes modelMap) xs h1 = Inr h'"
    by (auto split: sum.splits)
  from Cons.prems(3) x have fresh: "k \<notin> fst ` set xs" and d: "distinct (map fst xs)" by auto
  have wf1: "wellFormed h1" using attachModel_step(1) [OF step Cons.prems(2)] .
  show ?case
  proof (cases "(key, model) = (k, m)")
    case True
    from Cons.prems(4) x have "object_parent h (Model k) = None" by simp
    with attachModel_step(3) [OF step Cons.prems(2), of rel] True assms(6)
    have "object_parent h1 (Model key) = Some (lastResolvedParent modelMap key (parents rel))"
      by simp
    with attachModels_other [OF rest wf1, of key] fresh True show ?thesis by simp
  next
    case False
    with Cons.prems(5) x have mem: "(key, model) \<in> set xs" by auto
    have none: "\<forall>k' \<in> fst ` set xs. object_parent h1 (Model k') = None"
    proof
      fix k' assume k': "k' \<in> fst ` set xs"
      with fresh have "k' \<noteq> k" by auto
      from attachModel_step(2) [OF step Cons.prems(2) this] Cons.prems(4) k' x
      show "object_parent h1 (Model k') = None" by simp
    qed
    from Cons.IH [OF rest wf1 d none mem] show ?thesis .
  qed
qed

text \<open>
  C2, as amended. When the hierarchy assembly completes, every constructed model is a
  child of the last entry of its connection-graph parent list that resolves to a
  constructed model other than itself; if there is no such entry, it is a child of the
  scene root.
\<close>

theorem attachModels_last_parent:
  assumes "attachModels conns modelNodes modelMap = Inr h"
    and "distinct (map fst modelMap)"
    and "(key, model) \<in> set modelMap"
    and "conns (model_ID model) = Some rel"
  shows "object_parent h (Model key) = Some (lastResolvedParent modelMap key (parents rel))
       \<and> Model key \<in> set (object_children h (lastResolvedParent modelMap key (parents rel)))"
proof -
  let ?h0 = "\<lparr>object_parent = Map.empty, object_children = (\<lambda>r. [])\<rparr> :: ref hierarchy"
  have wf0: "wellFormed ?h0" by (simp add: wellFormed_def)
  have none: "\<forall>k \<in> fst ` set modelMap. object_parent ?h0 (Model k) = None" by simp
  from assms(1) have f: "foldE (attachModel conns modelNodes modelMap) modelMap ?h0 = Inr h"
    by (simp add: attachModels_def)
  from attachModels_parent [OF f wf0 assms(2) none assms(3,4)]
  have wf: "wellFormed h"
    and p: "object_parent h (Model key) = Some (lastResolvedParent modelMap key (parents rel))"
    by simp_all
  from wf p show ?thesis by (simp add: wellFormed_def)
qed


theorem attachModels_last_parent_witness:
  "parentAfterAssembly exampleModelConnections exampleModelNodes exampleModelMap 1 = Inr (Some (Model 3))
   \<and> parentAfterAssembly exampleModelConnections exampleModelNodes exampleModelMap 2 = Inr (Some SceneGraph)
   \<and> parentAfterAssembly exampleModelConnections exampleModelNodes exampleModelMap 4 = Inr (Some (Model 2))"
proof -
  obtain h where h: "attachModels exampleModelConnections exampleModelNodes exampleModelMap = Inr h"
    by (simp add: attachModels_def attachModel_def setLookAtProperties_def Let_def
        exampleModelConnections_def exampleModelNodes_def exampleModelMap_def)
  have d: "distinct (map fst exampleModelMap)" by (simp add: exampleModelMap_def)
  have m1: "(1, \<lparr>model_ID = 1, has_target = False\<rparr>) \<in> set exampleModelMap"
    and m2: "(2, \<lparr>model_ID = 2, has_target = False\<rparr>) \<in> set exampleModelMap"
    and m4: "(4, \<lparr>model_ID = 4, has_target = False\<rparr>) \<in> set exampleModelMap"
    by (simp_all add: exampleModelMap_def)
  have c1: "exampleModelConnections (model_ID \<lparr>model_ID = 1, has_target = False\<rparr>)
              = Some \<lparr>parents = [edge 2, edge 3], children = []\<rparr>"
    and c2: "exampleModelConnections (model_ID \<lparr>model_ID = 2, has_target = False\<rparr>)
              = Some \<lparr>parents = [edge 0], children = [edge 1, edge 4]\<rparr>"
    and c4: "exampleModelConnections (model_ID \<lparr>model_ID = 4, has_target = False\<rparr>)
              = Some \<lparr>parents = [edge 2, edge 4], children = [edge 4]\<rparr>"
    by (simp_all add: exampleModelConnections_def)
  have l1: "lastResolvedParent exampleModelMap 1 (parents \<lparr>parents = [edge 2, edge 3], children = []\<rparr>)
              = Model 3"
    and l2: "lastResolvedParent exampleModelMap 2
               (parents \<lparr>parents = [edge 0], children = [edge 1, edge 4]\<rparr>) = SceneGraph"
    and l4: "lastResolvedParent exampleModelMap 4
               (parents \<lparr>parents = [edge 2, edge 4], children = [edge 4]\<rparr>) = Model 2"
    by (simp_all add: lastResolvedParent_def exampleModelMap_def edge_def)
  from attachModels_last_parent [OF h d m1 c1] attachModels_last_parent [OF h d m2 c2]
    attachModels_last_parent [OF h d m4 c4] l1 l2 l4 h
  show ?thesis by (simp add: parentAfterAssembly_def)
qed

text \<open>
  The claim C2 as it was stated fails: model 1 has the resolving parents 2 and 3, in
  this order; every \<^verbatim>\<open>parent.add(model)\<close> moves the model, so it ends under model 3,
  the last one, and not under model 2, the first.
\<close>

theorem attachModels_not_first_parent:
  "parentAfterAssembly exampleModelConnections exampleModelNodes exampleModelMap 1 = Inr (Some (Model 3))
   \<and> firstResolvedParent exampleModelMap [edge 2, edge 3] = Model 2
   \<and> map_option parents (exampleModelConnections 1) = Some [edge 2, edge 3]"
  by (simp add: parentAfterAssembly_def attachModels_def attachModel_def setLookAtProperties_def
      Let_def addToParent_def Object3D_add_def Object3D_remove_def firstResolvedParent_def
      exampleModelConnections_def exampleModelNodes_def exampleModelMap_def edge_def)

subsection \<open>Clipping planes of a camera\<close>

lemma createCamera_planes:
  assumes "createCamera NodeAttribute window rel = Inr (PerspectiveCamera fov width height near far focal)"
  shows "near = 1 \<and> far = 1000"
  using assms
  by (auto simp: createCamera_def Let_def split: sum.splits option.splits if_splits prod.splits)

lemma createCamera_raises:
  assumes "foldE (findAttribute NodeAttribute) (children rel) None = Inr (Some cameraAttribute)"
    and "NearPlane cameraAttribute \<noteq> None \<or> FarPlane cameraAttribute \<noteq> None"
  shows "\<exists>e. createCamera NodeAttribute window rel = Inl (TypeError e)"
  using assms by (auto simp: createCamera_def Let_def)

text \<open>
  C3 says that a Camera model whose NodeAttribute defines NearPlane and FarPlane
  becomes a camera with near plane NearPlane / 1000 and far plane FarPlane / 1000.
  The code does not get there: both variables are declared \<^verbatim>\<open>const\<close>, the
  assignment of the scaled value raises, and \<open>createCamera\<close> returns no camera. Here
  NearPlane is 100 and FarPlane is 100000.
\<close>

theorem createCamera_near_far:
  "createCamera (Some [(5, exampleCameraAttribute)]) (1920, 1080)
     \<lparr>parents = [edge 4], children = [edge 5]\<rparr>
   = Inl (TypeError ''nearClippingPlane = cameraAttribute.NearPlane.value / 1000'')
   \<and> createCamera (Some [(5, exampleCameraAttribute)]) (1920, 1080)
     \<lparr>parents = [edge 4], children = [edge 5]\<rparr>
   \<noteq> Inr (PerspectiveCamera (JNumber 40) (JNumber 1920) (JNumber 1080) (100 / 1000) (100000 / 1000) None)"
  by (simp add: createCamera_def findAttribute_def exampleCameraAttribute_def edge_def)

end
